theory Spec2Isabelle
  imports Main "HOL-Library.Sublist" "HOL-Library.Char_ord" "HOL-Library.List_Lexorder"
begin

section \<open>Python values and string helpers\<close>

text \<open>
  Values that cross the JSON boundaries of the program (HTTP bodies, tool arguments,
  delegate results). Floats are left out; dictionaries keep their insertion order, as
  Python's do.
\<close>

datatype pyval =
    PNone
  | PBool bool
  | PInt int
  | PStr string
  | PList "pyval list"
  | PDict "(string \<times> pyval) list"

text \<open>Python truthiness, as used by \<open>if result\<close> and \<open>x or y\<close>.\<close>

fun truthy :: "pyval \<Rightarrow> bool" where
  "truthy PNone = False"
| "truthy (PBool b) = b"
| "truthy (PInt n) = (n \<noteq> 0)"
| "truthy (PStr s) = (s \<noteq> [])"
| "truthy (PList xs) = (xs \<noteq> [])"
| "truthy (PDict kvs) = (kvs \<noteq> [])"

text \<open>Truthiness of an optional string (\<open>None\<close> and the empty string are falsy).\<close>

fun truthy_str :: "string option \<Rightarrow> bool" where
  "truthy_str None = False"
| "truthy_str (Some s) = (s \<noteq> [])"

text \<open>
  \<open>str.lower()\<close>. A character is a code point below 256: the letters A to Z and the
  upper-case letters of Latin-1 (U+00C0 to U+00DE without the multiplication sign U+00D7)
  are mapped to the code point 32 above, every other character is kept.
\<close>

definition upper_case_letters :: string where
  "upper_case_letters =
     ''ABCDEFGHIJKLMNOPQRSTUVWXYZ'' @
     [CHR 0xC0, CHR 0xC1, CHR 0xC2, CHR 0xC3, CHR 0xC4, CHR 0xC5, CHR 0xC6, CHR 0xC7,
      CHR 0xC8, CHR 0xC9, CHR 0xCA, CHR 0xCB, CHR 0xCC, CHR 0xCD, CHR 0xCE, CHR 0xCF,
      CHR 0xD0, CHR 0xD1, CHR 0xD2, CHR 0xD3, CHR 0xD4, CHR 0xD5, CHR 0xD6,
      CHR 0xD8, CHR 0xD9, CHR 0xDA, CHR 0xDB, CHR 0xDC, CHR 0xDD, CHR 0xDE]"

definition lower_case_letters :: string where
  "lower_case_letters =
     ''abcdefghijklmnopqrstuvwxyz'' @
     [CHR 0xE0, CHR 0xE1, CHR 0xE2, CHR 0xE3, CHR 0xE4, CHR 0xE5, CHR 0xE6, CHR 0xE7,
      CHR 0xE8, CHR 0xE9, CHR 0xEA, CHR 0xEB, CHR 0xEC, CHR 0xED, CHR 0xEE, CHR 0xEF,
      CHR 0xF0, CHR 0xF1, CHR 0xF2, CHR 0xF3, CHR 0xF4, CHR 0xF5, CHR 0xF6,
      CHR 0xF8, CHR 0xF9, CHR 0xFA, CHR 0xFB, CHR 0xFC, CHR 0xFD, CHR 0xFE]"

definition lower_char :: "char \<Rightarrow> char" where
  "lower_char c =
     (case map_of (zip upper_case_letters lower_case_letters) c of
        None \<Rightarrow> c
      | Some d \<Rightarrow> d)"

definition lower :: "string \<Rightarrow> string" where
  "lower s = map lower_char s"

text \<open>\<open>k in q\<close> on strings: \<open>k\<close> occurs in \<open>q\<close> as a contiguous piece.\<close>

fun str_contains :: "string \<Rightarrow> string \<Rightarrow> bool" where
  "str_contains k [] = (k = [])"
| "str_contains k (c # cs) = (prefix k (c # cs) \<or> str_contains k cs)"

section \<open>Capability registry (agent\_registry.py)\<close>

text \<open>
  One entry of the \<open>agents\<close> table. The code reads every field with \<open>.get\<close>, so each may be
  absent; \<open>cfg_extra\<close> holds the keys the orchestration does not read.
\<close>

record agent_config =
  cfg_id :: "string option"
  cfg_name :: "string option"
  cfg_type :: "string option"
  cfg_endpoint :: "string option"
  cfg_query_endpoint :: "string option"
  cfg_capabilities :: "string list option"
  cfg_extra :: "(string \<times> pyval) list"

text \<open>
  One routing rule: \<open>rule.get('keywords', [])\<close>, \<open>rule.get('agent')\<close>,
  \<open>rule.get('priority', 999)\<close>.
\<close>

record routing_rule =
  rule_keywords :: "string list option"
  rule_agent :: "string option"
  rule_priority :: "int option"

record registry =
  agents :: "(string \<times> agent_config) list"
  routing_rules :: "routing_rule list"
  default_agent :: "string option"
  supervisor_config :: "(string \<times> pyval) list"

text \<open>The parsed configuration document, when it is a mapping.\<close>

record yaml_config =
  yaml_agents :: "(string \<times> agent_config) list option"
  yaml_routing_rules :: "routing_rule list option"
  yaml_default_agent :: "string option"
  yaml_supervisor_config :: "(string \<times> pyval) list option"

datatype yaml_document = YamlNotMapping | YamlMapping yaml_config

text \<open>
  What \<open>load_config\<close> finds at \<open>config_file\<close>: no file, a file that cannot be opened or
  parsed (\<open>open\<close> or \<open>yaml.safe_load\<close> raises), or a parsed document.
\<close>

datatype config_source = FileMissing | FileUnparsable | FileParsed yaml_document

text \<open>
  \<open>load_config\<close>: the missing-file branch and the \<open>except\<close> branch reset \<open>agents\<close> and
  \<open>routing_rules\<close> only. A parsed document that is not a mapping raises at the first
  \<open>config.get\<close>, before any field is assigned.
\<close>

fun load_config :: "registry \<Rightarrow> config_source \<Rightarrow> registry" where
  "load_config r FileMissing = r\<lparr>agents := [], routing_rules := []\<rparr>"
| "load_config r FileUnparsable = r\<lparr>agents := [], routing_rules := []\<rparr>"
| "load_config r (FileParsed YamlNotMapping) = r\<lparr>agents := [], routing_rules := []\<rparr>"
| "load_config r (FileParsed (YamlMapping config)) =
     r\<lparr>agents := (case yaml_agents config of None \<Rightarrow> [] | Some a \<Rightarrow> a),
       routing_rules := (case yaml_routing_rules config of None \<Rightarrow> [] | Some rs \<Rightarrow> rs),
       default_agent :=
         Some (case yaml_default_agent config of None \<Rightarrow> ''github-agent'' | Some d \<Rightarrow> d),
       supervisor_config :=
         (case yaml_supervisor_config config of None \<Rightarrow> [] | Some c \<Rightarrow> c)\<rparr>"

text \<open>\<open>AgentRegistry.__init__\<close>: the fields are initialised, then \<open>load_config\<close> runs.\<close>

definition AgentRegistry_init :: "config_source \<Rightarrow> registry" where
  "AgentRegistry_init src =
     load_config \<lparr>agents = [], routing_rules = [], default_agent = None,
                  supervisor_config = []\<rparr> src"

text \<open>\<open>get_agent_config\<close>: by key first, then by the \<open>id\<close> field, in table order.\<close>

definition get_agent_config :: "registry \<Rightarrow> string \<Rightarrow> agent_config option" where
  "get_agent_config r agent_key =
     (case map_of (agents r) agent_key of
        Some config \<Rightarrow> Some config
      | None \<Rightarrow> find (\<lambda>config. cfg_id config = Some agent_key) (map snd (agents r)))"

definition is_agent_available :: "registry \<Rightarrow> string \<Rightarrow> bool" where
  "is_agent_available r agent_key = (get_agent_config r agent_key \<noteq> None)"

text \<open>
  The body of the loop of \<open>route_query\<close>. The state is \<open>(best_match, highest_priority)\<close>;
  \<open>highest_priority = None\<close> stands for \<open>float('inf')\<close>, below which every integer lies.
\<close>

definition keywords_of :: "routing_rule \<Rightarrow> string list" where
  "keywords_of rule = (case rule_keywords rule of None \<Rightarrow> [] | Some ks \<Rightarrow> ks)"

definition priority_of :: "routing_rule \<Rightarrow> int" where
  "priority_of rule = (case rule_priority rule of None \<Rightarrow> 999 | Some p \<Rightarrow> p)"

definition rule_matches :: "string \<Rightarrow> routing_rule \<Rightarrow> bool" where
  "rule_matches query_lower rule =
     list_ex (\<lambda>keyword. str_contains keyword query_lower) (keywords_of rule)"

fun route_step ::
  "string \<Rightarrow> string option \<times> int option \<Rightarrow> routing_rule \<Rightarrow> string option \<times> int option"
where
  "route_step query_lower (best_match, highest_priority) rule =
     (if rule_matches query_lower rule then
        (if (case highest_priority of None \<Rightarrow> True | Some h \<Rightarrow> priority_of rule < h)
         then (rule_agent rule, Some (priority_of rule))
         else (best_match, highest_priority))
      else (best_match, highest_priority))"

definition route_query :: "registry \<Rightarrow> string \<Rightarrow> string option" where
  "route_query r query =
     (let query_lower = lower query;
          best_match = fst (foldl (route_step query_lower) (None, None) (routing_rules r))
      in if truthy_str best_match then best_match else default_agent r)"

subsection \<open>Routing as the specification words it\<close>

text \<open>
  The rules that match a query, and among them the first one whose priority no other
  matching rule undercuts.
\<close>

definition matching_rules :: "string \<Rightarrow> routing_rule list \<Rightarrow> routing_rule list" where
  "matching_rules query rules = filter (rule_matches (lower query)) rules"

definition best_rule :: "routing_rule list \<Rightarrow> routing_rule option" where
  "best_rule ms = find (\<lambda>r. list_all (\<lambda>r'. priority_of r \<le> priority_of r') ms) ms"

text \<open>The specification's reading: the winning rule's agent, or the default when nothing matches.\<close>

definition route_spec :: "registry \<Rightarrow> string \<Rightarrow> string option" where
  "route_spec r query =
     (case best_rule (matching_rules query (routing_rules r)) of
        None \<Rightarrow> default_agent r
      | Some rule \<Rightarrow> rule_agent rule)"

text \<open>The registry of the specification's scenario.\<close>

definition scenario_registry :: registry where
  "scenario_registry =
     \<lparr>agents = [],
      routing_rules = [\<lparr>rule_keywords = Some [''issue''], rule_agent = Some ''github-agent'',
                        rule_priority = Some 1\<rparr>],
      default_agent = Some ''bedrock-agent'',
      supervisor_config = []\<rparr>"

text \<open>The same registry with a rule that names the empty agent id.\<close>

definition empty_agent_registry :: registry where
  "empty_agent_registry =
     \<lparr>agents = [],
      routing_rules = [\<lparr>rule_keywords = Some [''issue''], rule_agent = Some '''',
                        rule_priority = Some 1\<rparr>],
      default_agent = Some ''bedrock-agent'',
      supervisor_config = []\<rparr>"

section \<open>The outside world of the supervisor\<close>

text \<open>
  \<open>response.json()\<close> of an HTTP reply: the decoder raises (with the message carried here)
  or yields a value.
\<close>

datatype json_body = JsonInvalid string | JsonValue pyval

text \<open>
  \<open>httpx.AsyncClient.post\<close>: the call raises (connection refused, timeout; the message
  is \<open>str(e)\<close>) or returns a reply with a status code and a body.
\<close>

datatype http_outcome = HttpRaises string | HttpResponse nat json_body

text \<open>One event of the \<open>completion\<close> stream of \<open>invoke_agent\<close>.\<close>

datatype completion_event =
    ChunkBytes string
  | ChunkUndecodable string
  | ChunkNoBytes
  | OtherEvent

text \<open>
  The boto3 call \<open>invoke_agent\<close>: a \<open>ClientError\<close> with its code and message, any other
  exception with its text, or the stream of events.
\<close>

datatype invoke_outcome =
    InvokeClientError string string
  | InvokeError string
  | InvokeEvents "completion_event list"

text \<open>
  Everything the supervisor asks of its environment during one turn: the HTTP transport
  (URL and JSON body), the Bedrock runtime (the input text), Python's \<open>str()\<close> of a value
  that is not a string, the environment variable \<open>BEDROCK_AGENT_ID\<close>, and the generators
  behind \<open>uuid.uuid4()\<close> and \<open>datetime.utcnow().isoformat()\<close>.
\<close>

record env =
  http_post :: "string \<Rightarrow> pyval \<Rightarrow> http_outcome"
  invoke_agent :: "string \<Rightarrow> invoke_outcome"
  py_repr :: "pyval \<Rightarrow> string"
  bedrock_agent_id :: string
  uuid4 :: string
  utcnow :: string

text \<open>\<open>str(v)\<close>, as f-strings apply it: a string is itself.\<close>

definition py_str :: "env \<Rightarrow> pyval \<Rightarrow> string" where
  "py_str e v = (case v of PStr s \<Rightarrow> s | _ \<Rightarrow> py_repr e v)"

text \<open>\<open>str(n)\<close> of a status code.\<close>

fun show_nat :: "nat \<Rightarrow> string" where
  "show_nat n =
     (if n < 10 then [''0123456789'' ! n]
      else show_nat (n div 10) @ [''0123456789'' ! (n mod 10)])"

declare show_nat.simps [simp del]

text \<open>The type name in the message of an \<open>AttributeError\<close>.\<close>

fun type_name :: "pyval \<Rightarrow> string" where
  "type_name PNone = ''NoneType''"
| "type_name (PBool _) = ''bool''"
| "type_name (PInt _) = ''int''"
| "type_name (PStr _) = ''str''"
| "type_name (PList _) = ''list''"
| "type_name (PDict _) = ''dict''"

definition no_attribute :: "pyval \<Rightarrow> string \<Rightarrow> string" where
  "no_attribute v attr =
     [CHR 0x27] @ type_name v @ [CHR 0x27] @ '' object has no attribute '' @
     [CHR 0x27] @ attr @ [CHR 0x27]"

text \<open>
  \<open>str.strip()\<close>: the characters below 256 for which \<open>str.isspace()\<close> holds are removed at
  both ends.
\<close>

definition is_space :: "char \<Rightarrow> bool" where
  "is_space c =
     (c \<in> set [CHR '' '', CHR 0x09, CHR 0x0A, CHR 0x0B, CHR 0x0C, CHR 0x0D,
                CHR 0x1C, CHR 0x1D, CHR 0x1E, CHR 0x1F, CHR 0x85, CHR 0xA0])"

definition strip :: "string \<Rightarrow> string" where
  "strip s = rev (dropWhile is_space (rev (dropWhile is_space s)))"

section \<open>Bedrock agent client (bedrock\_agent/client.py)\<close>

text \<open>
  The loop over \<open>response['completion']\<close>: the decoded bytes of every chunk are
  concatenated; a chunk that does not decode raises.
\<close>

fun collect_chunks :: "string \<Rightarrow> completion_event list \<Rightarrow> string + string" where
  "collect_chunks acc [] = Inr acc"
| "collect_chunks acc (ChunkBytes b # es) = collect_chunks (acc @ b) es"
| "collect_chunks acc (ChunkUndecodable msg # es) = Inl msg"
| "collect_chunks acc (ChunkNoBytes # es) = collect_chunks acc es"
| "collect_chunks acc (OtherEvent # es) = collect_chunks acc es"

text \<open>
  \<open>BedrockAgentClient.query\<close>: \<open>Inl\<close> is the message of the exception it raises, \<open>Inr\<close> the
  stripped text it returns.
\<close>

definition BedrockAgentClient_query :: "env \<Rightarrow> string \<Rightarrow> string + string" where
  "BedrockAgentClient_query e user_message =
     (case invoke_agent e user_message of
        InvokeClientError error_code msg \<Rightarrow>
          Inl (if error_code = ''ThrottlingException''
               then ''Bedrock agent is being throttled. Please try again later.''
               else if error_code = ''ValidationException''
               then ''Invalid agent request: '' @ msg
               else if error_code = ''ResourceNotFoundException''
               then ''Bedrock agent not found: '' @ bedrock_agent_id e
               else ''Bedrock agent error: '' @ msg)
      | InvokeError msg \<Rightarrow> Inl (''Error calling Bedrock agent: '' @ msg)
      | InvokeEvents events \<Rightarrow>
          (case collect_chunks [] events of
             Inl msg \<Rightarrow> Inl (''Error calling Bedrock agent: '' @ msg)
           | Inr result \<Rightarrow> Inr (strip result)))"

section \<open>Message envelope (a2a\_protocol.py)\<close>

text \<open>
  The dataclasses do not check their field types, so every field holds a Python value;
  \<open>PNone\<close> is \<open>None\<close>.
\<close>

record agent_message =
  msg_sender_id :: pyval
  msg_recipient_id :: pyval
  msg_message_type :: pyval
  msg_content :: pyval
  msg_timestamp :: pyval
  msg_message_id :: pyval

record task_request =
  task_id :: pyval
  task_description :: string
  task_parameters :: pyval
  task_requester_id :: pyval
  task_target_capability :: pyval
  task_priority :: pyval

record task_response =
  resp_task_id :: pyval
  resp_status :: pyval
  resp_result :: pyval
  resp_error :: pyval
  resp_agent_id :: pyval

datatype error = TypeError | AttributeError | JSONDecodeError

text \<open>
  \<open>AgentMessage(...)\<close>: the constructor followed by \<open>__post_init__\<close>, which fills a
  timestamp or a message id that \<open>is None\<close>.
\<close>

definition AgentMessage ::
  "env \<Rightarrow> pyval \<Rightarrow> pyval \<Rightarrow> pyval \<Rightarrow> pyval \<Rightarrow> pyval \<Rightarrow> pyval \<Rightarrow> agent_message"
where
  "AgentMessage e sender recipient mtype cont ts mid =
     \<lparr>msg_sender_id = sender, msg_recipient_id = recipient, msg_message_type = mtype,
      msg_content = cont,
      msg_timestamp = (if ts = PNone then PStr (utcnow e) else ts),
      msg_message_id = (if mid = PNone then PStr (uuid4 e) else mid)\<rparr>"

text \<open>
  \<open>TaskRequest(**task_data)\<close>: the content must be a mapping that has the four required
  fields and no key outside the six of the dataclass; otherwise the call raises
  \<open>TypeError\<close>. \<open>__post_init__\<close> replaces a falsy task id by a fresh one. The description
  is used as a string: in \<open>handle_task_request\<close> the next statement calls \<open>.lower()\<close> on it,
  which raises \<open>AttributeError\<close> for any other value.
\<close>

definition task_request_fields :: "string list" where
  "task_request_fields =
     [''task_id'', ''description'', ''parameters'', ''requester_id'', ''target_capability'',
      ''priority'']"

definition TaskRequest_from :: "env \<Rightarrow> pyval \<Rightarrow> error + task_request" where
  "TaskRequest_from e task_data =
     (case task_data of
        PDict kvs \<Rightarrow>
          (if list_all (\<lambda>k. k \<in> set task_request_fields) (map fst kvs) then
             (case (map_of kvs ''task_id'', map_of kvs ''description'',
                    map_of kvs ''parameters'', map_of kvs ''requester_id'') of
                (Some t, Some (PStr d), Some p, Some r) \<Rightarrow>
                  Inr \<lparr>task_id = (if truthy t then t else PStr (uuid4 e)),
                       task_description = d,
                       task_parameters = p,
                       task_requester_id = r,
                       task_target_capability =
                         (case map_of kvs ''target_capability'' of None \<Rightarrow> PNone | Some c \<Rightarrow> c),
                       task_priority =
                         (case map_of kvs ''priority'' of None \<Rightarrow> PStr ''normal'' | Some c \<Rightarrow> c)\<rparr>
              | (Some t, Some d, Some p, Some r) \<Rightarrow> Inl AttributeError
              | _ \<Rightarrow> Inl TypeError)
           else Inl TypeError)
      | _ \<Rightarrow> Inl TypeError)"

text \<open>\<open>asdict\<close> of a task response, and \<open>TaskResponse.to_message\<close>.\<close>

definition asdict_task_response :: "task_response \<Rightarrow> pyval" where
  "asdict_task_response r =
     PDict [(''task_id'', resp_task_id r), (''status'', resp_status r),
            (''result'', resp_result r), (''error'', resp_error r),
            (''agent_id'', resp_agent_id r)]"

definition to_message :: "env \<Rightarrow> task_response \<Rightarrow> pyval \<Rightarrow> agent_message" where
  "to_message e r recipient =
     AgentMessage e (resp_agent_id r) recipient (PStr ''task_response'')
       (asdict_task_response r) PNone PNone"

section \<open>Supervisor (supervisor\_agent.py)\<close>

record bedrock_client =
  bc_agent_id :: string
  bc_region :: string

record turn_entry =
  entry_role :: string
  entry_content :: string

text \<open>
  The fields of \<open>SupervisorAgent\<close> that routing, delegation and the conversation log read
  or write.
\<close>

record supervisor =
  sup_agent_id :: string
  sup_registry :: registry
  bedrock_agent_client :: "bedrock_client option"
  conversation :: "turn_entry list"

definition SupervisorAgent_init :: "config_source \<Rightarrow> supervisor" where
  "SupervisorAgent_init src =
     \<lparr>sup_agent_id = ''supervisor-001'',
      sup_registry = AgentRegistry_init src,
      bedrock_agent_client = None,
      conversation = []\<rparr>"

text \<open>\<open>if not agent_config\<close>: a table entry without any key is falsy.\<close>

definition fstr_opt :: "string option \<Rightarrow> string" where
  "fstr_opt x = (case x of None \<Rightarrow> ''None'' | Some s \<Rightarrow> s)"

definition config_is_empty :: "agent_config \<Rightarrow> bool" where
  "config_is_empty c =
     (cfg_id c = None \<and> cfg_name c = None \<and> cfg_type c = None \<and> cfg_endpoint c = None \<and>
      cfg_query_endpoint c = None \<and> cfg_capabilities c = None \<and> cfg_extra c = [])"

text \<open>
  \<open>execute_github_task\<close>: every failure is turned into a returned string; the
  \<open>except Exception\<close> clause also covers a body that is not JSON and a JSON value without
  \<open>.get\<close>.
\<close>

definition execute_github_task :: "env \<Rightarrow> supervisor \<Rightarrow> task_request \<Rightarrow> pyval" where
  "execute_github_task e s task =
     (case get_agent_config (sup_registry s) ''github-agent'' of
        None \<Rightarrow> PStr ''GitHub Agent not found in registry''
      | Some agent_config \<Rightarrow>
          if config_is_empty agent_config then PStr ''GitHub Agent not found in registry''
          else
            let endpoint = cfg_endpoint agent_config;
                query_url = fstr_opt endpoint @
                  (case cfg_query_endpoint agent_config of None \<Rightarrow> ''/query'' | Some q \<Rightarrow> q)
            in (case http_post e query_url
                      (PDict [(''query'', PStr (task_description task)),
                              (''parameters'', task_parameters task)]) of
                 HttpRaises msg \<Rightarrow> PStr (''Failed to connect to github-agent: '' @ msg)
               | HttpResponse status_code body \<Rightarrow>
                   if status_code = 200 then
                     (case body of
                        JsonInvalid msg \<Rightarrow> PStr (''Failed to connect to github-agent: '' @ msg)
                      | JsonValue (PDict kvs) \<Rightarrow>
                          (case map_of kvs ''result'' of
                             None \<Rightarrow> PStr ''No result from git-mcp-agent''
                           | Some v \<Rightarrow> v)
                      | JsonValue v \<Rightarrow>
                          PStr (''Failed to connect to github-agent: '' @ no_attribute v ''get''))
                   else PStr (''Git-MCP-Agent error: '' @ show_nat status_code)))"

definition execute_bedrock_task :: "env \<Rightarrow> supervisor \<Rightarrow> task_request \<Rightarrow> pyval" where
  "execute_bedrock_task e s task =
     (case bedrock_agent_client s of
        None \<Rightarrow> PStr ''Bedrock agent not initialized''
      | Some _ \<Rightarrow>
          (case BedrockAgentClient_query e (task_description task) of
             Inr result \<Rightarrow> PStr result
           | Inl msg \<Rightarrow> PStr (''Failed to execute Bedrock task: '' @ msg)))"

definition delegate_task :: "env \<Rightarrow> supervisor \<Rightarrow> task_request \<Rightarrow> string \<Rightarrow> pyval" where
  "delegate_task e s task target_agent =
     (if target_agent = ''github-agent'' then execute_github_task e s task
      else if target_agent = ''bedrock-agent-001'' then execute_bedrock_task e s task
      else PStr (''Agent '' @ target_agent @ '' not implemented yet''))"

text \<open>
  \<open>asyncio.gather(..., return_exceptions=True)\<close> hands over the outcome of each task as a
  value: \<open>Inr\<close> what the task returned, \<open>Inl\<close> the message of the exception it raised.
  \<open>collate_responses\<close> renders an exception as \<open>Error: <message>\<close>.
\<close>

definition outcome_content :: "string + pyval \<Rightarrow> pyval" where
  "outcome_content outcome =
     (case outcome of Inr v \<Rightarrow> v | Inl msg \<Rightarrow> PStr (''Error: '' @ msg))"

definition concatenation :: "env \<Rightarrow> pyval \<Rightarrow> pyval \<Rightarrow> string" where
  "concatenation e github_content bedrock_content =
     ''GitHub Agent: '' @ py_str e github_content @ ''\<newline>\<newline>Bedrock Agent: '' @
     py_str e bedrock_content"

definition collation_prompt :: "env \<Rightarrow> string \<Rightarrow> pyval \<Rightarrow> pyval \<Rightarrow> string" where
  "collation_prompt e query github_content bedrock_content =
     ''You are a supervisor agent that intelligently combines responses from two specialized agents: a GitHub Agent (repository/code expert) and a Bedrock Agent (general AI assistant).\<newline>''
     @ ''\<newline>User Query: '' @ query @ ''\<newline>''
     @ ''\<newline>GitHub Agent Result: '' @ py_str e github_content @ ''\<newline>''
     @ ''\<newline>Bedrock Agent Result: '' @ py_str e bedrock_content @ ''\<newline>''
     @ ''\<newline>IMPORTANT INSTRUCTIONS:\<newline>''
     @ ''1. PRESERVE ALL file paths, repository references, URLs, and technical details from the GitHub Agent\<newline>''
     @ ''2. PRESERVE ALL code snippets, file names, directory structures, and git-related information exactly as provided\<newline>''
     @ ''3. If the GitHub Agent provides specific file references, repository information, or code examples, include them verbatim\<newline>''
     @ ''4. Combine the GitHub Agent's technical/repository knowledge with the Bedrock Agent's general knowledge\<newline>''
     @ ''5. When both agents provide relevant information, present the GitHub Agent's technical details first, then supplement with Bedrock Agent insights\<newline>''
     @ ''6. If the GitHub Agent has errors but the Bedrock Agent succeeds, clearly note the GitHub Agent limitation while providing the Bedrock response\<newline>''
     @ ''7. If the GitHub Agent succeeds but provides repository-specific information, prioritize and highlight that information\<newline>''
     @ ''8. Do not summarize or paraphrase file paths, repository names, or technical references - keep them exact\<newline>''
     @ ''9. Only show the recommended approach and ask if the user wants to see an alternate approach\<newline>''
     @ ''\<newline>Provide a comprehensive response that leverages the specialized knowledge from both agents while preserving all technical details and references.''"

definition collate_responses ::
  "env \<Rightarrow> supervisor \<Rightarrow> string \<Rightarrow> string + pyval \<Rightarrow> string + pyval \<Rightarrow> string"
where
  "collate_responses e s query github_result bedrock_result =
     (let github_content = outcome_content github_result;
          bedrock_content = outcome_content bedrock_result
      in (case bedrock_agent_client s of
           None \<Rightarrow> concatenation e github_content bedrock_content
         | Some _ \<Rightarrow>
             (case BedrockAgentClient_query e
                     (collation_prompt e query github_content bedrock_content) of
                Inr result \<Rightarrow> result
              | Inl msg \<Rightarrow>
                  concatenation e github_content bedrock_content @
                  ''\<newline>\<newline>(Note: Response collation failed: '' @ msg @ '')'')))"

text \<open>The two task requests of \<open>route_and_execute\<close>.\<close>

definition github_task :: "supervisor \<Rightarrow> string \<Rightarrow> task_request" where
  "github_task s user_query =
     \<lparr>task_id = PStr ''github-task'', task_description = user_query,
      task_parameters = PDict [(''query'', PStr user_query)],
      task_requester_id = PStr (sup_agent_id s),
      task_target_capability = PNone, task_priority = PStr ''normal''\<rparr>"

definition bedrock_task :: "supervisor \<Rightarrow> string \<Rightarrow> task_request" where
  "bedrock_task s user_query =
     \<lparr>task_id = PStr ''bedrock-task'', task_description = user_query,
      task_parameters = PDict [(''query'', PStr user_query)],
      task_requester_id = PStr (sup_agent_id s),
      task_target_capability = PNone, task_priority = PStr ''normal''\<rparr>"

text \<open>
  The pair that \<open>asyncio.gather\<close> returns in \<open>route_and_execute\<close>: both delegations run,
  and since \<open>delegate_task\<close> returns on every path, both outcomes are returned values.
\<close>

definition gather_results :: "env \<Rightarrow> supervisor \<Rightarrow> string \<Rightarrow> (string + pyval) \<times> (string + pyval)" where
  "gather_results e s user_query =
     (Inr (delegate_task e s (github_task s user_query) ''github-agent''),
      Inr (delegate_task e s (bedrock_task s user_query) ''bedrock-agent-001''))"

definition route_and_execute :: "env \<Rightarrow> supervisor \<Rightarrow> string \<Rightarrow> string" where
  "route_and_execute e s user_query =
     (case gather_results e s user_query of
        (github_result, bedrock_result) \<Rightarrow>
          collate_responses e s user_query github_result bedrock_result)"

text \<open>
  \<open>query\<close>: the user's message is appended, the log is cut to its last ten entries when it
  is longer, the turn runs, and the reply is appended.
\<close>

definition query :: "env \<Rightarrow> supervisor \<Rightarrow> string \<Rightarrow> string \<times> supervisor" where
  "query e s user_message =
     (let c1 = conversation s @ [\<lparr>entry_role = ''user'', entry_content = user_message\<rparr>];
          c2 = (if length c1 > 10 then drop (length c1 - 10) c1 else c1);
          s2 = s\<lparr>conversation := c2\<rparr>;
          response = route_and_execute e s2 user_message
      in (response,
          s2\<lparr>conversation := c2 @ [\<lparr>entry_role = ''assistant'', entry_content = response\<rparr>]\<rparr>))"

text \<open>A run of turns, each with the environment it meets.\<close>

fun query_all :: "supervisor \<Rightarrow> (env \<times> string) list \<Rightarrow> supervisor" where
  "query_all s [] = s"
| "query_all s ((e, user_message) # turns) = query_all (snd (query e s user_message)) turns"

text \<open>
  The response that \<open>handle_task_request\<close> builds for a task request:
  \<open>if target_agent and self.registry.is_agent_available(target_agent)\<close>.
\<close>

definition no_agent_response :: "supervisor \<Rightarrow> task_request \<Rightarrow> task_response" where
  "no_agent_response s task_request =
     \<lparr>resp_task_id = task_id task_request,
      resp_status = PStr ''failed'',
      resp_result = PNone,
      resp_error = PStr ''No suitable agent found for task'',
      resp_agent_id = PStr (sup_agent_id s)\<rparr>"

definition task_response_for :: "env \<Rightarrow> supervisor \<Rightarrow> task_request \<Rightarrow> task_response" where
  "task_response_for e s task_request =
     (case route_query (sup_registry s) (task_description task_request) of
        None \<Rightarrow> no_agent_response s task_request
      | Some target_agent \<Rightarrow>
          if target_agent \<noteq> [] \<and> is_agent_available (sup_registry s) target_agent then
            (let result = delegate_task e s task_request target_agent in
             \<lparr>resp_task_id = task_id task_request,
              resp_status = PStr (if truthy result then ''completed'' else ''failed''),
              resp_result = result,
              resp_error = PNone,
              resp_agent_id = PStr (sup_agent_id s)\<rparr>)
          else no_agent_response s task_request)"

definition handle_task_request :: "env \<Rightarrow> supervisor \<Rightarrow> agent_message \<Rightarrow> error + agent_message" where
  "handle_task_request e s message =
     (case TaskRequest_from e (msg_content message) of
        Inl err \<Rightarrow> Inl err
      | Inr task_request \<Rightarrow>
          Inr (to_message e (task_response_for e s task_request) (msg_sender_id message)))"

text \<open>
  The invariant of the data model: the status is \<open>failed\<close> exactly when an error is present
  and the result is absent.
\<close>

definition failed_iff_error_only :: "task_response \<Rightarrow> bool" where
  "failed_iff_error_only r =
     ((resp_status r = PStr ''failed'') = (resp_error r \<noteq> PNone \<and> resp_result r = PNone))"

subsection \<open>Names for the parts of a turn\<close>

definition last_n :: "nat \<Rightarrow> 'a list \<Rightarrow> 'a list" where
  "last_n n xs = drop (length xs - n) xs"

definition user_entry :: "string \<Rightarrow> turn_entry" where
  "user_entry m = \<lparr>entry_role = ''user'', entry_content = m\<rparr>"

definition assistant_entry :: "string \<Rightarrow> turn_entry" where
  "assistant_entry m = \<lparr>entry_role = ''assistant'', entry_content = m\<rparr>"

text \<open>What each delegate hands back in a turn, and the outcome of the reconciliation call
  (\<open>None\<close> when no Bedrock client is there to make it).\<close>

definition github_content :: "env \<Rightarrow> supervisor \<Rightarrow> string \<Rightarrow> pyval" where
  "github_content e s q = delegate_task e s (github_task s q) ''github-agent''"

definition bedrock_content :: "env \<Rightarrow> supervisor \<Rightarrow> string \<Rightarrow> pyval" where
  "bedrock_content e s q = delegate_task e s (bedrock_task s q) ''bedrock-agent-001''"

definition reconciliation :: "env \<Rightarrow> supervisor \<Rightarrow> string \<Rightarrow> (string + string) option" where
  "reconciliation e s q =
     (case bedrock_agent_client s of
        None \<Rightarrow> None
      | Some _ \<Rightarrow>
          Some (BedrockAgentClient_query e
                  (collation_prompt e q (github_content e s q) (bedrock_content e s q))))"

definition collation_note :: "string \<Rightarrow> string" where
  "collation_note msg = ''\<newline>\<newline>(Note: Response collation failed: '' @ msg @ '')''"



subsection \<open>Example configurations\<close>

definition example_registry :: registry where
  "example_registry =
     \<lparr>agents =
        [(''github-agent'',
          \<lparr>cfg_id = Some ''github-agent'', cfg_name = Some ''GitHub Agent'',
           cfg_type = Some ''GitHubAgent'', cfg_endpoint = Some ''http://localhost:8001'',
           cfg_query_endpoint = Some ''/query'',
           cfg_capabilities = Some [''github_code_search''], cfg_extra = []\<rparr>),
         (''bedrock-agent'',
          \<lparr>cfg_id = Some ''bedrock-agent-001'', cfg_name = Some ''Bedrock Agent'',
           cfg_type = Some ''BedrockAgent'', cfg_endpoint = None,
           cfg_query_endpoint = None,
           cfg_capabilities = Some [''ai_text_generation''], cfg_extra = []\<rparr>)],
      routing_rules =
        [\<lparr>rule_keywords = Some [''issue''], rule_agent = Some ''github-agent'',
          rule_priority = Some 1\<rparr>],
      default_agent = Some ''bedrock-agent-001'',
      supervisor_config = []\<rparr>"

definition example_supervisor :: supervisor where
  "example_supervisor =
     \<lparr>sup_agent_id = ''supervisor-001'',
      sup_registry = example_registry,
      bedrock_agent_client = Some \<lparr>bc_agent_id = ''bedrock-agent-001'', bc_region = ''us-west-2''\<rparr>,
      conversation = []\<rparr>"

text \<open>An environment in which nothing answers.\<close>

definition deaf_env :: env where
  "deaf_env =
     \<lparr>http_post = (\<lambda>url body. HttpRaises ''All connection attempts failed''),
      invoke_agent = (\<lambda>text. InvokeError ''Unable to locate credentials''),
      py_repr = (\<lambda>v. []),
      bedrock_agent_id = ''6UIP6AIMXF'',
      uuid4 = ''00000000-0000-4000-8000-000000000000'',
      utcnow = ''2025-01-01T00:00:00''\<rparr>"

text \<open>
  The GitHub agent is unreachable; the Bedrock agent answers the user's question, and
  answers the reconciliation prompt with a sentence of its own.
\<close>

definition evasive_env :: env where
  "evasive_env =
     deaf_env\<lparr>invoke_agent :=
       (\<lambda>text. if text = ''status?'' then InvokeEvents [ChunkBytes ''All systems nominal'']
               else InvokeEvents [ChunkBytes ''I cannot help with that.''])\<rparr>"

text \<open>The same, with the reconciliation call throttled.\<close>

definition throttled_env :: env where
  "throttled_env =
     deaf_env\<lparr>invoke_agent :=
       (\<lambda>text. if text = ''status?'' then InvokeEvents [ChunkBytes ''All systems nominal'']
               else InvokeClientError ''ThrottlingException'' ''Rate exceeded'')\<rparr>"

text \<open>The GitHub agent replies with status 200 and an empty result.\<close>

definition empty_result_env :: env where
  "empty_result_env =
     deaf_env\<lparr>http_post :=
       (\<lambda>url body. HttpResponse 200
          (JsonValue (PDict [(''status'', PStr ''completed''), (''result'', PStr ''''),
                             (''agent_id'', PStr ''github-agent-001'')])))\<rparr>"

definition issue_request :: agent_message where
  "issue_request =
     \<lparr>msg_sender_id = PStr ''client-7'', msg_recipient_id = PStr ''supervisor-001'',
      msg_message_type = PStr ''task_request'',
      msg_content = PDict [(''task_id'', PStr ''t-1''), (''description'', PStr ''list open issues''),
                           (''parameters'', PDict []), (''requester_id'', PStr ''client-7'')],
      msg_timestamp = PStr ''2025-01-01T00:00:00'',
      msg_message_id = PStr ''m-1''\<rparr>"

definition issue_task :: task_request where
  "issue_task =
     \<lparr>task_id = PStr ''t-1'', task_description = ''list open issues'',
      task_parameters = PDict [], task_requester_id = PStr ''client-7'',
      task_target_capability = PNone, task_priority = PStr ''normal''\<rparr>"

section \<open>JSON text of a value (\<open>json.dumps(v, sort_keys=True)\<close>)\<close>

definition show_int :: "int \<Rightarrow> string" where
  "show_int i = (if i < 0 then ''-'' @ show_nat (nat (- i)) else show_nat (nat i))"

definition hex2 :: "nat \<Rightarrow> string" where
  "hex2 n = [''0123456789abcdef'' ! (n div 16 mod 16), ''0123456789abcdef'' ! (n mod 16)]"

text \<open>
  The escapes of the encoder with \<open>ensure_ascii\<close>: the quote, the backslash, the short
  escapes, and \<open>\u00XX\<close> for every other character outside the range from space to tilde.
\<close>

definition escape_char :: "char \<Rightarrow> string" where
  "escape_char c =
     (if c = CHR 0x22 then [CHR 0x5C, CHR 0x22]
      else if c = CHR 0x5C then [CHR 0x5C, CHR 0x5C]
      else if c = CHR 0x0A then [CHR 0x5C, CHR ''n'']
      else if c = CHR 0x0D then [CHR 0x5C, CHR ''r'']
      else if c = CHR 0x09 then [CHR 0x5C, CHR ''t'']
      else if c = CHR 0x08 then [CHR 0x5C, CHR ''b'']
      else if c = CHR 0x0C then [CHR 0x5C, CHR ''f'']
      else if (of_char c :: nat) < 32 \<or> (of_char c :: nat) > 126
        then [CHR 0x5C, CHR ''u'', CHR ''0'', CHR ''0''] @ hex2 (of_char c)
      else [c])"

definition json_string :: "string \<Rightarrow> string" where
  "json_string s = [CHR 0x22] @ concat (map escape_char s) @ [CHR 0x22]"

fun join :: "string \<Rightarrow> string list \<Rightarrow> string" where
  "join sep [] = []"
| "join sep [x] = x"
| "join sep (x # y # ys) = x @ sep @ join sep (y # ys)"

text \<open>
  With \<open>sort_keys=True\<close> the items of every dictionary, nested ones included, are written
  in the order of their keys (strings compare by code point, a proper prefix first).
\<close>

function (sequential) json_dumps_sorted :: "pyval \<Rightarrow> string" where
  "json_dumps_sorted PNone = ''null''"
| "json_dumps_sorted (PBool b) = (if b then ''true'' else ''false'')"
| "json_dumps_sorted (PInt i) = show_int i"
| "json_dumps_sorted (PStr s) = json_string s"
| "json_dumps_sorted (PList xs) = ''['' @ join '', '' (map json_dumps_sorted xs) @ '']''"
| "json_dumps_sorted (PDict kvs) =
     ''{'' @ join '', ''
              (map (\<lambda>kv. json_string (fst kv) @ '': '' @ json_dumps_sorted (snd kv))
                   (sort_key fst kvs)) @ ''}''"
  by pat_completeness auto
termination
proof (relation "measure size")
  fix kvs :: "(string \<times> pyval) list" and kv
  assume "kv \<in> set (sort_key fst kvs)"
  then have "kv \<in> set kvs" by simp
  then have "size (snd kv) < Suc (size_list (size_prod (\<lambda>_. 0) size) kvs)"
    by (induction kvs) (auto simp: less_Suc_eq_le)
  then show "(snd kv, PDict kvs) \<in> measure size" by simp
next
  fix xs :: "pyval list" and x
  assume "x \<in> set xs"
  then have "size x < Suc (size_list size xs)"
    by (induction xs) auto
  then show "(x, PList xs) \<in> measure size" by simp
qed simp

section \<open>Ordered dictionaries\<close>

text \<open>
  A Python \<open>dict\<close> as the list of its items in insertion order, keys distinct. Assigning
  to a key that is present keeps its place; a new key goes to the end.
\<close>

fun dict_set :: "('k \<times> 'v) list \<Rightarrow> 'k \<Rightarrow> 'v \<Rightarrow> ('k \<times> 'v) list" where
  "dict_set [] k v = [(k, v)]"
| "dict_set ((k', v') # kvs) k v =
     (if k' = k then (k, v) # kvs else (k', v') # dict_set kvs k v)"

definition dict_del :: "('k \<times> 'v) list \<Rightarrow> 'k \<Rightarrow> ('k \<times> 'v) list" where
  "dict_del kvs k = filter (\<lambda>kv. fst kv \<noteq> k) kvs"

section \<open>Remote tool session (mcp\_client.py)\<close>

record rpc_request =
  rpc_url :: string
  rpc_headers :: "(string \<times> string) list"
  rpc_id :: "nat option"
  rpc_method :: string
  rpc_params :: "pyval option"

datatype reply_body = InvalidJson string | Json pyval

record http_reply =
  reply_status :: nat
  reply_headers :: "(string \<times> string) list"
  reply_body :: reply_body

datatype post_outcome = PostRaises string | PostReply http_reply

text \<open>
  The tool provider: what it answers to a request, given the requests it has received so
  far on this client.
\<close>

type_synonym transport = "rpc_request list \<Rightarrow> rpc_request \<Rightarrow> post_outcome"

text \<open>
  One entry of the tool table. \<open>required\<close> is a list of strings, as the tool schema has it.
\<close>

record tool_info =
  tool_description :: pyval
  tool_parameters :: pyval
  tool_required :: "string list"

text \<open>
  The client. \<open>session\<close> tells whether \<open>self.session\<close> holds an HTTP client (it is \<open>None\<close>
  until \<open>initialize\<close> runs); \<open>sent\<close> is not a field of the source: it records every request
  handed to the transport, in order.
\<close>

record mcp_client =
  github_token :: "string option"
  toolsets :: "string list"
  readonly :: bool
  base_url :: string
  headers :: "(string \<times> string) list"
  session :: bool
  tools :: "(string \<times> tool_info) list"
  sent :: "rpc_request list"

definition rstrip_slash :: "string \<Rightarrow> string" where
  "rstrip_slash s = rev (dropWhile (\<lambda>c. c = CHR ''/'') (rev s))"

definition GitHubMCPClient_init :: "string option \<Rightarrow> string list option \<Rightarrow> bool \<Rightarrow> mcp_client" where
  "GitHubMCPClient_init token toolsets_arg ro =
     (let ts = (case toolsets_arg of None \<Rightarrow> [''all''] | Some [] \<Rightarrow> [''all''] | Some l \<Rightarrow> l);
          url = (if ''all'' \<in> set ts then ''https://api.githubcopilot.com/mcp/''
                 else ''https://api.githubcopilot.com/mcp/x/'' @
                      (case ts of [] \<Rightarrow> [] | toolset # _ \<Rightarrow> toolset) @ ''/'');
          url' = (if ro then rstrip_slash url @ ''/readonly/'' else url);
          h = [(''Authorization'', ''Bearer '' @ fstr_opt token),
               (''Content-Type'', ''application/json''),
               (''User-Agent'', ''GitHub-MCP-Client/1.0'')];
          h' = (if length ts > 1 \<and> ''all'' \<notin> set ts
                then dict_set h ''X-MCP-Toolsets'' (join '','' ts) else h)
      in \<lparr>github_token = token, toolsets = ts, readonly = ro, base_url = url',
          headers = dict_set h' ''X-MCP-Readonly'' ''true'',
          session = False, tools = [], sent = []\<rparr>)"

text \<open>\<open>self.session.post(self.base_url, headers=self.headers, json=...)\<close>.\<close>

definition post ::
  "transport \<Rightarrow> mcp_client \<Rightarrow> nat option \<Rightarrow> string \<Rightarrow> pyval option \<Rightarrow> post_outcome \<times> mcp_client"
where
  "post T c rid method params =
     (let request = \<lparr>rpc_url = base_url c, rpc_headers = headers c, rpc_id = rid,
                      rpc_method = method, rpc_params = params\<rparr>
      in (T (sent c) request, c\<lparr>sent := sent c @ [request]\<rparr>))"

definition initialize_params :: pyval where
  "initialize_params =
     PDict [(''protocolVersion'', PStr ''2024-11-05''),
            (''capabilities'',
               PDict [(''roots'', PDict [(''listChanged'', PBool True)]),
                      (''sampling'', PDict [])]),
            (''clientInfo'',
               PDict [(''name'', PStr ''github-agent''), (''version'', PStr ''1.0.0'')])]"

text \<open>
  One element of \<open>data["result"]["tools"]\<close>: the assignment to \<open>self.tools[tool["name"]]\<close>
  goes through when the element has a name, a description and an input schema with
  properties; otherwise a \<open>KeyError\<close> or \<open>TypeError\<close> is raised (\<open>None\<close>). The model
  keeps the table typed: a name that is not a string, or a \<open>required\<close> that is not a list
  of strings, is read as such a failure too.
\<close>

fun required_names :: "pyval list \<Rightarrow> string list option" where
  "required_names [] = Some []"
| "required_names (PStr p # ps) = map_option ((#) p) (required_names ps)"
| "required_names (_ # ps) = None"

definition read_tool :: "pyval \<Rightarrow> (string \<times> tool_info) option" where
  "read_tool tool =
     (case tool of
        PDict kvs \<Rightarrow>
          (case (map_of kvs ''name'', map_of kvs ''description'', map_of kvs ''inputSchema'') of
             (Some (PStr name), Some description, Some (PDict schema)) \<Rightarrow>
               (case map_of schema ''properties'' of
                  None \<Rightarrow> None
                | Some properties \<Rightarrow>
                    (case (case map_of schema ''required'' of
                             None \<Rightarrow> Some []
                           | Some (PList ps) \<Rightarrow> required_names ps
                           | Some _ \<Rightarrow> None) of
                       None \<Rightarrow> None
                     | Some required \<Rightarrow>
                         Some (name, \<lparr>tool_description = description,
                                      tool_parameters = properties,
                                      tool_required = required\<rparr>)))
           | _ \<Rightarrow> None)
      | _ \<Rightarrow> None)"

text \<open>
  The loop \<open>for tool in data["result"]["tools"]\<close>: the table is filled entry by entry; the
  flag tells whether the loop ran to its end (an element that cannot be read raises, which
  leaves the entries stored before it).
\<close>

fun add_tools ::
  "(string \<times> tool_info) list \<Rightarrow> pyval list \<Rightarrow> (string \<times> tool_info) list \<times> bool"
where
  "add_tools table [] = (table, True)"
| "add_tools table (tool # rest) =
     (case read_tool tool of
        None \<Rightarrow> (table, False)
      | Some (name, info) \<Rightarrow> add_tools (dict_set table name info) rest)"

text \<open>
  The elements the loop runs over, when \<open>"result" in data and "tools" in data["result"]\<close>
  holds and the subscripts succeed; \<open>None\<close> on every other path (all of them return 0 and
  leave the table alone).
\<close>

definition listed_tools :: "pyval \<Rightarrow> pyval list option" where
  "listed_tools data =
     (case data of
        PDict kvs \<Rightarrow>
          (case map_of kvs ''result'' of
             Some (PDict res) \<Rightarrow>
               (case map_of res ''tools'' of
                  Some (PList items) \<Rightarrow> Some items
                | Some (PDict d) \<Rightarrow> Some (map (\<lambda>kv. PStr (fst kv)) d)
                | Some (PStr s) \<Rightarrow> Some (map (\<lambda>ch. PStr [ch]) s)
                | _ \<Rightarrow> None)
           | _ \<Rightarrow> None)
      | _ \<Rightarrow> None)"

text \<open>
  \<open>response.headers.get(name)\<close>: header names are compared without regard to case, and
  the values of a header that occurs more than once are joined with \<open>", "\<close>.
\<close>

definition header_get :: "(string \<times> string) list \<Rightarrow> string \<Rightarrow> string option" where
  "header_get hs name =
     (case map snd (filter (\<lambda>h. lower (fst h) = lower name) hs) of
        [] \<Rightarrow> None
      | v # vs \<Rightarrow> Some (join '', '' (v # vs)))"

text \<open>
  \<open>initialize\<close>: the HTTP client is created first; then the three round trips. Every
  exception is caught and gives 0.
\<close>

definition tools_list_step :: "transport \<Rightarrow> mcp_client \<Rightarrow> nat \<times> mcp_client" where
  "tools_list_step T c =
     (case post T c (Some 2) ''tools/list'' (Some (PDict [])) of
        (PostRaises _, c') \<Rightarrow> (0, c')
      | (PostReply tools_response, c') \<Rightarrow>
          if reply_status tools_response = 200 then
            (case reply_body tools_response of
               InvalidJson _ \<Rightarrow> (0, c')
             | Json data \<Rightarrow>
                 (case listed_tools data of
                    None \<Rightarrow> (0, c')
                  | Some items \<Rightarrow>
                      (case add_tools (tools c') items of
                         (table, finished) \<Rightarrow>
                           (if finished then length table else 0, c'\<lparr>tools := table\<rparr>))))
          else (0, c'))"

definition initialize :: "transport \<Rightarrow> mcp_client \<Rightarrow> nat \<times> mcp_client" where
  "initialize T c =
     (case post T (c\<lparr>session := True\<rparr>) (Some 1) ''initialize'' (Some initialize_params) of
        (PostRaises _, c1) \<Rightarrow> (0, c1)
      | (PostReply init_response, c1) \<Rightarrow>
          if reply_status init_response \<noteq> 200 then (0, c1)
          else
            (let c2 = (case header_get (reply_headers init_response) ''Mcp-Session-Id'' of
                         None \<Rightarrow> c1
                       | Some session_id \<Rightarrow>
                           if session_id \<noteq> []
                           then c1\<lparr>headers := dict_set (headers c1) ''Mcp-Session-Id'' session_id\<rparr>
                           else c1)
             in (case post T c2 None ''notifications/initialized'' None of
                   (PostRaises _, c3) \<Rightarrow> (0, c3)
                 | (PostReply _, c3) \<Rightarrow> tools_list_step T c3)))"

datatype call_error =
    SessionNotInitialized
  | TransportError string
  | ToolCallFailed nat
  | JsonDecodeError string
  | ToolError pyval
  | CallTypeError

text \<open>\<open>key in data\<close> for a JSON value; \<open>None\<close> where Python raises \<open>TypeError\<close>.\<close>

definition py_contains :: "string \<Rightarrow> pyval \<Rightarrow> bool option" where
  "py_contains k data =
     (case data of
        PDict kvs \<Rightarrow> Some (k \<in> fst ` set kvs)
      | PList xs \<Rightarrow> Some (PStr k \<in> set xs)
      | PStr s \<Rightarrow> Some (str_contains k s)
      | _ \<Rightarrow> None)"

definition read_call_reply :: "pyval \<Rightarrow> call_error + pyval" where
  "read_call_reply data =
     (case py_contains ''result'' data of
        None \<Rightarrow> Inl CallTypeError
      | Some True \<Rightarrow>
          (case data of
             PDict kvs \<Rightarrow> (case map_of kvs ''result'' of Some r \<Rightarrow> Inr r | None \<Rightarrow> Inl CallTypeError)
           | _ \<Rightarrow> Inl CallTypeError)
      | Some False \<Rightarrow>
          (case py_contains ''error'' data of
             Some True \<Rightarrow>
               (case data of
                  PDict kvs \<Rightarrow>
                    (case map_of kvs ''error'' of
                       Some err \<Rightarrow> Inl (ToolError err)
                     | None \<Rightarrow> Inl CallTypeError)
                | _ \<Rightarrow> Inl CallTypeError)
           | _ \<Rightarrow> Inr data))"

text \<open>
  \<open>call_tool\<close>: \<open>Inl\<close> is the exception that leaves the method. The only guard before the
  request is \<open>if not self.session\<close>.
\<close>

definition call_tool ::
  "transport \<Rightarrow> mcp_client \<Rightarrow> string \<Rightarrow> (string \<times> pyval) list \<Rightarrow> (call_error + pyval) \<times> mcp_client"
where
  "call_tool T c tool_name arguments =
     (if \<not> session c then (Inl SessionNotInitialized, c)
      else
        (case post T c (Some 3) ''tools/call''
                (Some (PDict [(''name'', PStr tool_name), (''arguments'', PDict arguments)])) of
           (PostRaises msg, c') \<Rightarrow> (Inl (TransportError msg), c')
         | (PostReply response, c') \<Rightarrow>
             if reply_status response \<noteq> 200 then (Inl (ToolCallFailed (reply_status response)), c')
             else
               (case reply_body response of
                  InvalidJson msg \<Rightarrow> (Inl (JsonDecodeError msg), c')
                | Json data \<Rightarrow> (read_call_reply data, c'))))"

section \<open>GitHub agent: tool execution and the result cache (agent.py)\<close>

record tool_call =
  call_name :: string
  call_arguments :: "(string \<times> pyval) list"

text \<open>
  What \<open>execute_tools\<close> appends to \<open>results\<close>: a result entry
  \<open>{"tool", "arguments", "result"}\<close> or an error entry \<open>{"tool", ["arguments",] "error"}\<close>,
  whose message is \<open>Tool '...' not available\<close>, \<open>Missing required parameters: [...]\<close> or the
  text of the exception that \<open>call_tool\<close> raised.
\<close>

datatype tool_failure =
    ToolNotAvailable
  | MissingRequiredParameters "string list"
  | ToolCallRaised call_error

datatype tool_outcome =
    ToolResult string "(string \<times> pyval) list" pyval
  | ToolFailure string "(string \<times> pyval) list option" tool_failure

text \<open>
  The agent: its client and its result cache, a dictionary from cache keys to result
  entries.
\<close>

record github_agent =
  agent_id :: string
  mcp_client :: mcp_client
  result_cache :: "(string \<times> tool_outcome) list"

definition GitHubAgent_init ::
  "string option \<Rightarrow> string list option \<Rightarrow> bool \<Rightarrow> string option \<Rightarrow> github_agent"
where
  "GitHubAgent_init token toolsets_arg ro aid =
     \<lparr>agent_id = (case aid of None \<Rightarrow> ''github-agent-001''
                   | Some a \<Rightarrow> if a = [] then ''github-agent-001'' else a),
      mcp_client = GitHubMCPClient_init token toolsets_arg ro,
      result_cache = []\<rparr>"

definition agent_initialize :: "transport \<Rightarrow> github_agent \<Rightarrow> nat \<times> github_agent" where
  "agent_initialize T a =
     (case initialize T (mcp_client a) of (n, c) \<Rightarrow> (n, a\<lparr>mcp_client := c\<rparr>))"

definition cacheable_tools :: "string list" where
  "cacheable_tools =
     [''search_repositories'', ''search_code'', ''get_file_contents'', ''list_issues'', ''get_me'']"

text \<open>
  \<open>_get_cache_key\<close>: the digest of \<open>tool_name:json\<close>. The digest
  \<open>hashlib.md5(...).hexdigest()\<close> is a parameter of the model.
\<close>

definition key_data :: "string \<Rightarrow> (string \<times> pyval) list \<Rightarrow> string" where
  "key_data tool_name arguments = tool_name @ '':'' @ json_dumps_sorted (PDict arguments)"

definition get_cache_key :: "(string \<Rightarrow> string) \<Rightarrow> string \<Rightarrow> (string \<times> pyval) list \<Rightarrow> string" where
  "get_cache_key md5 tool_name arguments = md5 (key_data tool_name arguments)"

text \<open>
  Storing a result: the assignment, then the size limit. When more than 50 entries are
  held, the first ten keys of the dictionary are deleted one by one.
\<close>

definition cache_store ::
  "(string \<times> tool_outcome) list \<Rightarrow> string \<Rightarrow> tool_outcome \<Rightarrow> (string \<times> tool_outcome) list"
where
  "cache_store cache cache_key tool_result =
     (let cache' = dict_set cache cache_key tool_result
      in if length cache' > 50
         then (let oldest_keys = take 10 (map fst cache') in foldl dict_del cache' oldest_keys)
         else cache')"

text \<open>
  The body of the loop of \<open>execute_tools\<close> for one tool call: the cache lookup for read-only
  tools, the tool table, the required parameters, the call, the store.
\<close>

definition execute_tool ::
  "(string \<Rightarrow> string) \<Rightarrow> transport \<Rightarrow> github_agent \<Rightarrow> tool_call \<Rightarrow> tool_outcome \<times> github_agent"
where
  "execute_tool md5 T a tc =
     (let tool_name = call_name tc;
          arguments = call_arguments tc;
          cache_key = (if tool_name \<in> set cacheable_tools
                       then Some (get_cache_key md5 tool_name arguments) else None)
      in (case (case cache_key of None \<Rightarrow> None | Some k \<Rightarrow> map_of (result_cache a) k) of
            Some cached \<Rightarrow> (cached, a)
          | None \<Rightarrow>
              (case map_of (tools (mcp_client a)) tool_name of
                 None \<Rightarrow> (ToolFailure tool_name None ToolNotAvailable, a)
               | Some info \<Rightarrow>
                   (let missing_params =
                          filter (\<lambda>p. p \<notin> fst ` set arguments) (tool_required info)
                    in if missing_params \<noteq> []
                       then (ToolFailure tool_name None (MissingRequiredParameters missing_params),
                             a)
                       else
                         (case call_tool T (mcp_client a) tool_name arguments of
                            (Inr res, c') \<Rightarrow>
                              (let tool_result = ToolResult tool_name arguments res;
                                   a' = a\<lparr>mcp_client := c'\<rparr>
                               in (tool_result,
                                   (case cache_key of
                                      None \<Rightarrow> a'
                                    | Some k \<Rightarrow>
                                        if k \<noteq> []
                                        then a'\<lparr>result_cache :=
                                                  cache_store (result_cache a') k tool_result\<rparr>
                                        else a')))
                          | (Inl err, c') \<Rightarrow>
                              (ToolFailure tool_name (Some arguments) (ToolCallRaised err),
                               a\<lparr>mcp_client := c'\<rparr>))))))"

fun execute_tools ::
  "(string \<Rightarrow> string) \<Rightarrow> transport \<Rightarrow> github_agent \<Rightarrow> tool_call list \<Rightarrow>
     tool_outcome list \<times> github_agent"
where
  "execute_tools md5 T a [] = ([], a)"
| "execute_tools md5 T a (tc # rest) =
     (case execute_tool md5 T a tc of
        (r, a') \<Rightarrow> (case execute_tools md5 T a' rest of (rs, a'') \<Rightarrow> (r # rs, a'')))"

text \<open>The cache lookup at the head of the loop body.\<close>

definition cached_result :: "(string \<Rightarrow> string) \<Rightarrow> github_agent \<Rightarrow> tool_call \<Rightarrow> tool_outcome option" where
  "cached_result md5 a tc =
     (if call_name tc \<in> set cacheable_tools
      then map_of (result_cache a) (get_cache_key md5 (call_name tc) (call_arguments tc))
      else None)"

subsection \<open>Names for the parts of a session\<close>

text \<open>A run of stores into the cache, in order.\<close>

definition store_all ::
  "(string \<times> tool_outcome) list \<Rightarrow> (string \<times> tool_outcome) list \<Rightarrow> (string \<times> tool_outcome) list"
where
  "store_all cache kvs = foldl (\<lambda>c kv. cache_store c (fst kv) (snd kv)) cache kvs"

text \<open>The first request of the handshake, and a provider that answers it with a status other
  than 200.\<close>

definition initialize_request :: "mcp_client \<Rightarrow> rpc_request" where
  "initialize_request c =
     \<lparr>rpc_url = base_url c, rpc_headers = headers c, rpc_id = Some 1,
      rpc_method = ''initialize'', rpc_params = Some initialize_params\<rparr>"

definition handshake_refused :: "transport \<Rightarrow> mcp_client \<Rightarrow> bool" where
  "handshake_refused T c =
     (case T (sent c) (initialize_request c) of
        PostRaises _ \<Rightarrow> False
      | PostReply r \<Rightarrow> reply_status r \<noteq> 200)"

definition not_available :: "tool_call \<Rightarrow> tool_outcome" where
  "not_available tc = ToolFailure (call_name tc) None ToolNotAvailable"

subsection \<open>Example providers\<close>

definition reply :: "nat \<Rightarrow> reply_body \<Rightarrow> post_outcome" where
  "reply code body = PostReply \<lparr>reply_status = code, reply_headers = [], reply_body = body\<rparr>"

definition octocat :: pyval where
  "octocat = PDict [(''login'', PStr ''octocat'')]"

text \<open>A provider that refuses the handshake with 503 and answers everything else.\<close>

definition refusing_transport :: transport where
  "refusing_transport history request =
     (if rpc_method request = ''initialize'' then reply 503 (InvalidJson ''Service Unavailable'')
      else reply 200 (Json (PDict [(''jsonrpc'', PStr ''2.0''), (''id'', PInt 3),
                                   (''result'', octocat)])))"

definition tool_listing :: "string \<Rightarrow> string list \<Rightarrow> pyval" where
  "tool_listing name required =
     PDict [(''jsonrpc'', PStr ''2.0''), (''id'', PInt 2),
            (''result'',
               PDict [(''tools'',
                  PList [PDict [(''name'', PStr name),
                                (''description'', PStr ''Search for code''),
                                (''inputSchema'',
                                   PDict [(''type'', PStr ''object''),
                                          (''properties'', PDict []),
                                          (''required'', PList (map PStr required))])]])])]"

text \<open>
  A provider whose \<open>search_code\<close> requires \<open>q\<close> at the first listing and \<open>q\<close> and \<open>owner\<close> at
  every later one.
\<close>

definition upgrading_transport :: transport where
  "upgrading_transport history request =
     (if rpc_method request = ''tools/list'' then
        reply 200 (Json (tool_listing ''search_code''
                           (if ''tools/list'' \<in> set (map rpc_method history)
                            then [''q'', ''owner''] else [''q''])))
      else if rpc_method request = ''tools/call'' then
        reply 200 (Json (PDict [(''jsonrpc'', PStr ''2.0''), (''id'', PInt 3),
                                (''result'', PStr ''3 matches'')]))
      else reply 200 (Json (PDict [])))"

text \<open>
  A stand-in for the digest in the closed examples below. They look a key up that was
  computed from the same data before, so any function serves.
\<close>

definition tagged :: "string \<Rightarrow> string" where
  "tagged s = ''md5:'' @ s"

definition fresh_agent :: github_agent where
  "fresh_agent = GitHubAgent_init (Some ''ghp_token'') None True None"

definition search_call :: tool_call where
  "search_call = \<lparr>call_name = ''search_code'', call_arguments = [(''q'', PStr ''TODO'')]\<rparr>"


text \<open>The agent after a handshake with the upgrading provider, after a search, and after a
  second handshake.\<close>

definition listed_agent :: github_agent where
  "listed_agent = snd (agent_initialize upgrading_transport fresh_agent)"



text \<open>The agent after the refused handshake.\<close>

definition refused_agent :: github_agent where
  "refused_agent = snd (agent_initialize refusing_transport fresh_agent)"

text \<open>Fifty-one results under the keys \<open>0\<close> to \<open>50\<close>.\<close>

definition numbered_results :: "(string \<times> tool_outcome) list" where
  "numbered_results = map (\<lambda>n. (show_nat n, ToolResult ''get_me'' [] (PInt (int n)))) [0..<51]"


text \<open>
  The agent after a call that returned \<open>res\<close> and left the client as \<open>c'\<close>: the result is
  stored when the tool is read-only (\<open>if cache_key\<close>).
\<close>

definition remember ::
  "(string \<Rightarrow> string) \<Rightarrow> github_agent \<Rightarrow> tool_call \<Rightarrow> mcp_client \<Rightarrow> pyval \<Rightarrow> github_agent"
where
  "remember md5 a tc c' res =
     (if call_name tc \<in> set cacheable_tools \<and>
         get_cache_key md5 (call_name tc) (call_arguments tc) \<noteq> []
      then a\<lparr>mcp_client := c',
             result_cache :=
               cache_store (result_cache a)
                 (get_cache_key md5 (call_name tc) (call_arguments tc))
                 (ToolResult (call_name tc) (call_arguments tc) res)\<rparr>
      else a\<lparr>mcp_client := c'\<rparr>)"

section \<open>JSON text of a value and back (\<open>json.dumps(v)\<close>, \<open>json.loads(s)\<close>)\<close>











fun strip_prefix :: "string \<Rightarrow> string \<Rightarrow> string option" where
  "strip_prefix [] s = Some s"
| "strip_prefix (p # ps) [] = None"
| "strip_prefix (p # ps) (c # cs) = (if p = c then strip_prefix ps cs else None)"




section \<open>The message envelope as JSON text (a2a\_protocol.py)\<close>








section \<open>Routing: the loop computes the first rule of least priority\<close>

lemma str_contains_sublist: "str_contains k q \<longleftrightarrow> sublist k q"
  by (induction q) (auto simp: sublist_Cons_right)

text \<open>The loop skips every rule that does not match.\<close>

lemma foldl_route_step_filter:
  "foldl (route_step ql) s rules = foldl (route_step ql) s (filter (rule_matches ql) rules)"
  by (induction rules arbitrary: s) (auto split: prod.splits)

lemma best_rule_Cons_lt:
  assumes "priority_of m < priority_of r0"
  shows "best_rule (r0 # m # ms) = best_rule (m # ms)"
  using assms unfolding best_rule_def
  by (auto simp: list_all_iff intro!: find_cong)

lemma best_rule_Cons_ge:
  assumes "\<not> priority_of m < priority_of r0"
  shows "best_rule (r0 # m # ms) = best_rule (r0 # ms)"
proof -
  define P where "P = (\<lambda>r. list_all (\<lambda>r'. priority_of r \<le> priority_of r') (r0 # m # ms))"
  define Q where "Q = (\<lambda>r. list_all (\<lambda>r'. priority_of r \<le> priority_of r') (r0 # ms))"
  have PQ: "P r = Q r" for r
    using assms by (auto simp: P_def Q_def list_all_iff)
  have Qm: "Q m \<Longrightarrow> Q r0"
    using assms by (auto simp: Q_def list_all_iff)
  have "find P (r0 # m # ms) = find Q (r0 # m # ms)"
    using PQ by (intro find_cong) auto
  also have "\<dots> = find Q (r0 # ms)"
    using Qm by auto
  finally show ?thesis by (simp add: best_rule_def P_def Q_def)
qed

text \<open>
  Once a first matching rule \<open>r0\<close> has been taken, the loop state is the agent and the
  priority of the best rule seen so far.
\<close>

lemma foldl_route_step_best:
  assumes "list_all (rule_matches ql) (r0 # ms)"
  shows "foldl (route_step ql) (rule_agent r0, Some (priority_of r0)) ms =
         (case best_rule (r0 # ms) of
            None \<Rightarrow> (None, None)
          | Some r \<Rightarrow> (rule_agent r, Some (priority_of r)))"
  using assms
proof (induction ms arbitrary: r0)
  case Nil
  then show ?case by (simp add: best_rule_def)
next
  case (Cons m ms)
  show ?case
  proof (cases "priority_of m < priority_of r0")
    case True
    then show ?thesis using Cons.IH[of m] Cons.prems by (simp add: best_rule_Cons_lt)
  next
    case False
    then show ?thesis using Cons.IH[of r0] Cons.prems by (simp add: best_rule_Cons_ge)
  qed
qed

lemma foldl_route_step_matching:
  assumes "list_all (rule_matches ql) ms"
  shows "foldl (route_step ql) (None, None) ms =
         (case best_rule ms of
            None \<Rightarrow> (None, None)
          | Some r \<Rightarrow> (rule_agent r, Some (priority_of r)))"
proof (cases ms)
  case Nil
  then show ?thesis by (simp add: best_rule_def)
next
  case (Cons r0 rest)
  with assms have "rule_matches ql r0" by simp
  then have "foldl (route_step ql) (None, None) ms =
             foldl (route_step ql) (rule_agent r0, Some (priority_of r0)) rest"
    using Cons by simp
  then show ?thesis using foldl_route_step_best[of ql r0 rest] assms Cons by simp
qed

lemma route_query_best_rule:
  "route_query reg q =
     (case best_rule (matching_rules q (routing_rules reg)) of
        None \<Rightarrow> default_agent reg
      | Some rule \<Rightarrow>
          if truthy_str (rule_agent rule) then rule_agent rule else default_agent reg)"
proof -
  let ?ms = "matching_rules q (routing_rules reg)"
  have m: "list_all (rule_matches (lower q)) ?ms"
    by (simp add: matching_rules_def list_all_iff)
  have "foldl (route_step (lower q)) (None, None) (routing_rules reg) =
        foldl (route_step (lower q)) (None, None) ?ms"
    unfolding matching_rules_def by (rule foldl_route_step_filter)
  then show ?thesis
    using foldl_route_step_matching[OF m]
    by (simp add: route_query_def Let_def split: option.splits)
qed

lemma matching_rules_iff:
  "rule \<in> set (matching_rules q rules) \<longleftrightarrow>
     rule \<in> set rules \<and> (\<exists>k \<in> set (keywords_of rule). sublist k (lower q))"
  by (auto simp: matching_rules_def rule_matches_def list_ex_iff str_contains_sublist)

lemmas route_eval_simps =
  route_query_def route_spec_def best_rule_def matching_rules_def lower_def lower_char_def upper_case_letters_def lower_case_letters_def
  rule_matches_def keywords_of_def priority_of_def

lemma scenario_issue:
  "route_query scenario_registry ''any open issues?'' = Some ''github-agent''"
  by (simp add: route_eval_simps scenario_registry_def)

lemma scenario_hello:
  "route_query scenario_registry ''hello'' = Some ''bedrock-agent''"
  by (simp add: route_eval_simps scenario_registry_def)

text \<open>
  C6, as the specification words it: \<open>route_query\<close> returns the agent of the winning rule.
  This fails for a rule whose agent is the empty string: \<open>best_match or self.default_agent\<close>
  treats the empty agent id as no match and returns the default.
\<close>

theorem route_query_empty_agent_counterexample:
  "route_spec empty_agent_registry ''issue'' = Some '''' \<and>
   route_query empty_agent_registry ''issue'' = Some ''bedrock-agent''"
  by (simp add: route_eval_simps empty_agent_registry_def)

text \<open>
  C6 (amended): for every registry and query, \<open>route_query\<close> lower-cases the query; a rule
  matches when one of its keywords is a contiguous piece of the lower-cased query; among
  the matching rules the first-declared one of least priority wins, and its agent is
  returned when that agent is a non-empty id. When no rule matches, or the winning rule
  names no agent or the empty one, the default agent is returned. In the scenario of the
  specification, "any open issues?" goes to github-agent and "hello" to bedrock-agent.
\<close>

theorem route_query_least_priority_first:
  "route_query reg q =
     (case best_rule (matching_rules q (routing_rules reg)) of
        None \<Rightarrow> default_agent reg
      | Some rule \<Rightarrow>
          if truthy_str (rule_agent rule) then rule_agent rule else default_agent reg)
   \<and> (\<forall>rule. rule \<in> set (matching_rules q (routing_rules reg)) \<longleftrightarrow>
         rule \<in> set (routing_rules reg) \<and>
         (\<exists>k \<in> set (keywords_of rule). sublist k (lower q)))
   \<and> route_query scenario_registry ''any open issues?'' = Some ''github-agent''
   \<and> route_query scenario_registry ''hello'' = Some ''bedrock-agent''"
  using route_query_best_rule matching_rules_iff scenario_issue scenario_hello by blast

text \<open>
  The theorem at a registry with two matching rules of priorities 2 and 1, declared in
  that order: the priority-1 rule wins.
\<close>

theorem route_query_least_priority_first_witness:
  "route_query
     \<lparr>agents = [],
      routing_rules =
        [\<lparr>rule_keywords = Some [''repo''], rule_agent = Some ''bedrock-agent'',
          rule_priority = Some 2\<rparr>,
         \<lparr>rule_keywords = Some [''issue'', ''repo''], rule_agent = Some ''github-agent'',
          rule_priority = Some 1\<rparr>],
      default_agent = Some ''bedrock-agent'',
      supervisor_config = []\<rparr>
     ''Issues in the REPO'' = Some ''github-agent''"
  using route_query_least_priority_first
    [of "\<lparr>agents = [],
      routing_rules =
        [\<lparr>rule_keywords = Some [''repo''], rule_agent = Some ''bedrock-agent'',
          rule_priority = Some 2\<rparr>,
         \<lparr>rule_keywords = Some [''issue'', ''repo''], rule_agent = Some ''github-agent'',
          rule_priority = Some 1\<rparr>],
      default_agent = Some ''bedrock-agent'',
      supervisor_config = []\<rparr>" "''Issues in the REPO''"]
  by (simp add: best_rule_def matching_rules_def lower_def lower_char_def upper_case_letters_def lower_case_letters_def
      rule_matches_def keywords_of_def priority_of_def)

section \<open>Loading: a missing configuration source\<close>

lemma route_query_no_rules:
  "routing_rules r = [] \<Longrightarrow> route_query r q = default_agent r"
  by (simp add: route_query_def)

text \<open>
  C7: after a load from a missing or malformed source the registry is empty and routing
  falls back to the configured default agent id. The code breaks the second half. The
  branches of \<open>load_config\<close> for a missing file and for a failed parse reset \<open>agents\<close> and
  \<open>routing_rules\<close> and return; \<open>default_agent\<close> keeps the \<open>None\<close> of \<open>__init__\<close>, so
  \<open>route_query\<close>, declared to return \<open>str\<close>, returns \<open>None\<close> for the query "hello". The
  branch for a parsed document does set the default: with no \<open>default_agent\<close> key in the
  document the same query is routed to \<open>github-agent\<close>.
\<close>

theorem route_query_after_missing_config:
  "agents (AgentRegistry_init FileMissing) = [] \<and>
   routing_rules (AgentRegistry_init FileMissing) = [] \<and>
   default_agent (AgentRegistry_init FileMissing) = None \<and>
   route_query (AgentRegistry_init FileMissing) ''hello'' = None \<and>
   route_query (AgentRegistry_init FileUnparsable) ''hello'' = None \<and>
   route_query (AgentRegistry_init (FileParsed YamlNotMapping)) ''hello'' = None \<and>
   route_query
     (AgentRegistry_init
        (FileParsed (YamlMapping \<lparr>yaml_agents = None, yaml_routing_rules = None,
                                   yaml_default_agent = None,
                                   yaml_supervisor_config = None\<rparr>)))
     ''hello'' = Some ''github-agent''"
  by (simp add: AgentRegistry_init_def route_query_no_rules)

section \<open>Supervisor: fan-out and reconciliation\<close>






lemma gather_results_values:
  "gather_results e s q = (Inr (github_content e s q), Inr (bedrock_content e s q))"
  by (simp add: gather_results_def github_content_def bedrock_content_def)

lemma route_and_execute_cases:
  "route_and_execute e s q =
     (case reconciliation e s q of
        None \<Rightarrow> concatenation e (github_content e s q) (bedrock_content e s q)
      | Some (Inr r) \<Rightarrow> r
      | Some (Inl msg) \<Rightarrow>
          concatenation e (github_content e s q) (bedrock_content e s q) @ collation_note msg)"
  by (simp add: route_and_execute_def gather_results_values collate_responses_def
      reconciliation_def outcome_content_def collation_note_def Let_def
      split: option.splits sum.splits)





lemmas env_simps = deaf_env_def evasive_env_def throttled_env_def empty_result_env_def

lemmas example_simps = example_supervisor_def example_registry_def get_agent_config_def
  config_is_empty_def fstr_opt_def













section \<open>Supervisor: the task-request path\<close>

text \<open>
  The response of the task-request path keeps the invariant exactly when no agent was
  found or the delegate's result is truthy.
\<close>

lemma task_response_for_invariant:
  "failed_iff_error_only (task_response_for e s t) \<longleftrightarrow>
     (case route_query (sup_registry s) (task_description t) of
        None \<Rightarrow> True
      | Some a \<Rightarrow>
          a \<noteq> [] \<and> is_agent_available (sup_registry s) a \<longrightarrow> truthy (delegate_task e s t a))"
  by (auto simp: failed_iff_error_only_def task_response_for_def no_agent_response_def Let_def
      split: option.splits)

lemma issue_task_routed:
  "route_query example_registry ''list open issues'' = Some ''github-agent''"
  by (simp add: route_eval_simps example_registry_def)

lemma issue_task_result:
  "delegate_task empty_result_env example_supervisor issue_task ''github-agent'' = PStr ''''"
  by (simp add: delegate_task_def execute_github_task_def issue_task_def
      env_simps example_simps Let_def)

lemma issue_task_response:
  "task_response_for empty_result_env example_supervisor issue_task =
     \<lparr>resp_task_id = PStr ''t-1'', resp_status = PStr ''failed'', resp_result = PStr '''',
      resp_error = PNone, resp_agent_id = PStr ''supervisor-001''\<rparr>"
proof -
  have "is_agent_available example_registry ''github-agent''"
    by (simp add: is_agent_available_def get_agent_config_def example_registry_def)
  then show ?thesis
    using issue_task_routed issue_task_result
    by (simp add: task_response_for_def Let_def example_supervisor_def issue_task_def)
qed

lemma issue_request_parsed:
  "TaskRequest_from empty_result_env (msg_content issue_request) = Inr issue_task"
  by (simp add: TaskRequest_from_def issue_request_def issue_task_def task_request_fields_def)

lemma issue_request_sender: "msg_sender_id issue_request = PStr ''client-7''"
  by (simp add: issue_request_def)

text \<open>
  C8: every task response of the task-request path has status \<open>failed\<close> exactly when its
  error is present and its result absent. The code breaks this when the chosen delegate
  returns a falsy result: for the request "list open issues", routed to the GitHub agent,
  whose HTTP reply carries the empty string as result, the response has status \<open>failed\<close>,
  the result \<open>''\<close> and no error.
\<close>

theorem handle_task_request_failed_without_error:
  "task_response_for empty_result_env example_supervisor issue_task =
     \<lparr>resp_task_id = PStr ''t-1'', resp_status = PStr ''failed'', resp_result = PStr '''',
      resp_error = PNone, resp_agent_id = PStr ''supervisor-001''\<rparr> \<and>
   \<not> failed_iff_error_only (task_response_for empty_result_env example_supervisor issue_task) \<and>
   handle_task_request empty_result_env example_supervisor issue_request =
     Inr (to_message empty_result_env
            (task_response_for empty_result_env example_supervisor issue_task)
            (PStr ''client-7''))"
  by (simp add: issue_task_response failed_iff_error_only_def handle_task_request_def
      issue_request_parsed issue_request_sender)

section \<open>Supervisor: the conversation log\<close>

lemma query_conversation:
  "conversation (snd (query e s m)) =
     last_n 10 (conversation s @ [user_entry m]) @ [assistant_entry (fst (query e s m))]"
  by (simp add: query_def Let_def last_n_def user_entry_def assistant_entry_def)

lemma query_reply:
  "fst (query e s m) =
     route_and_execute e (s\<lparr>conversation := last_n 10 (conversation s @ [user_entry m])\<rparr>) m"
  by (simp add: query_def Let_def last_n_def user_entry_def)

lemma query_length:
  "length (conversation (snd (query e s m))) = min (length (conversation s) + 1) 10 + 1"
  by (simp add: query_conversation last_n_def)

lemma query_all_length:
  "length (conversation (query_all s turns)) =
     (if turns = [] then length (conversation s)
      else min (length (conversation s) + 1 + 2 * (length turns - 1)) 10 + 1)"
proof (induction turns arbitrary: s)
  case Nil
  then show ?case by simp
next
  case (Cons t ts)
  obtain e m where t: "t = (e, m)" by (cases t)
  show ?case
    using Cons.IH[of "snd (query e s m)"]
    by (cases ts) (auto simp: t query_length min_def)
qed

lemma deaf_reply:
  "route_and_execute deaf_env (SupervisorAgent_init FileMissing\<lparr>conversation := c\<rparr>) ''hi'' =
     ''GitHub Agent: GitHub Agent not found in registry'' @
     ''\<newline>\<newline>Bedrock Agent: Bedrock agent not initialized''"
  by (simp add: route_and_execute_cases reconciliation_def SupervisorAgent_init_def
      AgentRegistry_init_def concatenation_def py_str_def github_content_def bedrock_content_def
      delegate_task_def execute_github_task_def execute_bedrock_task_def get_agent_config_def)

text \<open>
  C9: after every completed \<open>query\<close> the log holds at most ten entries, the most recent
  ones. The code cuts the log to its last ten entries, but does so after appending the
  user's message and before appending the reply, so a saturated log is left one entry
  over the bound: five turns on a fresh supervisor leave ten entries, the sixth leaves
  eleven, and so does every later one.
\<close>

theorem query_six_turns_leave_eleven:
  "length (conversation
     (query_all (SupervisorAgent_init FileMissing) (replicate 5 (deaf_env, ''hi'')))) = 10 \<and>
   length (conversation
     (query_all (SupervisorAgent_init FileMissing) (replicate 6 (deaf_env, ''hi'')))) = 11 \<and>
   length (conversation
     (query_all (SupervisorAgent_init FileMissing) (replicate 7 (deaf_env, ''hi'')))) = 11"
  by (simp add: query_all_length SupervisorAgent_init_def)

section \<open>Ordered dictionaries and the bounded cache\<close>

lemma map_of_dict_set: "map_of (dict_set c k v) = (map_of c)(k \<mapsto> v)"
  by (induction c) (auto simp: fun_eq_iff)

lemma dict_set_new: "k \<notin> fst ` set c \<Longrightarrow> dict_set c k v = c @ [(k, v)]"
  by (induction c) auto

lemma dict_set_present: "k \<in> fst ` set c \<Longrightarrow> map fst (dict_set c k v) = map fst c"
  by (induction c) (fastforce+)

lemma length_dict_set:
  "length (dict_set c k v) = (if k \<in> fst ` set c then length c else Suc (length c))"
  by (induction c) (fastforce+)

lemma distinct_dict_set: "distinct (map fst c) \<Longrightarrow> distinct (map fst (dict_set c k v))"
  by (cases "k \<in> fst ` set c") (simp_all add: dict_set_present dict_set_new)

lemma foldl_dict_del: "foldl dict_del c ks = filter (\<lambda>kv. fst kv \<notin> set ks) c"
  by (induction ks arbitrary: c) (auto simp: dict_del_def intro: filter_cong)

text \<open>Deleting the first \<open>n\<close> keys of a dictionary leaves all but its first \<open>n\<close> items.\<close>

lemma filter_take_keys:
  "distinct (map fst c) \<Longrightarrow> filter (\<lambda>kv. fst kv \<notin> set (take n (map fst c))) c = drop n c"
proof (induction c arbitrary: n)
  case Nil
  then show ?case by simp
next
  case (Cons x xs)
  show ?case
  proof (cases n)
    case 0
    then show ?thesis by simp
  next
    case (Suc m)
    have "filter (\<lambda>kv. fst kv \<notin> set (take n (map fst (x # xs)))) xs =
          filter (\<lambda>kv. fst kv \<notin> set (take m (map fst xs))) xs"
      using Cons.prems Suc by (intro filter_cong) (auto simp: image_iff)
    then show ?thesis using Cons Suc by simp
  qed
qed

lemma cache_store_distinct:
  assumes "distinct (map fst c)"
  shows "cache_store c k v =
           (if length (dict_set c k v) > 50 then drop 10 (dict_set c k v) else dict_set c k v)"
  using distinct_dict_set[OF assms, of k v]
  by (simp add: cache_store_def Let_def foldl_dict_del filter_take_keys)

lemma cache_store_keeps_distinct:
  assumes "distinct (map fst c)"
  shows "distinct (map fst (cache_store c k v))"
  using distinct_dict_set[OF assms, of k v]
  by (simp add: cache_store_distinct[OF assms] drop_map[symmetric])

lemma cache_store_bounded:
  assumes "distinct (map fst c)" "length c \<le> 50"
  shows "length (cache_store c k v) \<le> 50"
  using assms by (auto simp: cache_store_distinct length_dict_set)

lemma cache_store_lookup:
  assumes "distinct (map fst c)" "length c \<le> 50"
  shows "map_of (cache_store c k v) k = Some v"
proof (cases "k \<in> fst ` set c")
  case True
  then have "length (dict_set c k v) \<le> 50" using assms by (simp add: length_dict_set)
  then show ?thesis using assms by (simp add: cache_store_distinct map_of_dict_set)
next
  case False
  then have new: "dict_set c k v = c @ [(k, v)]" by (rule dict_set_new)
  show ?thesis
  proof (cases "length (dict_set c k v) > 50")
    case True
    with new assms have "drop 10 (dict_set c k v) = drop 10 c @ [(k, v)]" by simp
    moreover have "k \<notin> fst ` set (drop 10 c)"
      using False by (auto simp: image_iff dest: in_set_dropD)
    ultimately show ?thesis using True assms
      by (simp add: cache_store_distinct map_of_eq_None_iff[THEN iffD2] map_add_def
          split: option.splits)
  next
    case False
    then show ?thesis using assms by (simp add: cache_store_distinct map_of_dict_set)
  qed
qed

lemma store_all_append: "store_all c (xs @ ys) = store_all (store_all c xs) ys"
  by (simp add: store_all_def)

text \<open>Up to fifty distinct keys are all kept, in the order they came.\<close>

lemma store_all_small:
  assumes "distinct (map fst (c @ kvs))" "length (c @ kvs) \<le> 50"
  shows "store_all c kvs = c @ kvs"
  using assms
proof (induction kvs arbitrary: c)
  case Nil
  then show ?case by (simp add: store_all_def)
next
  case (Cons kv kvs)
  obtain k v where kv: "kv = (k, v)" by (cases kv)
  from Cons.prems have d: "distinct (map fst c)" and new: "k \<notin> fst ` set c"
    by (auto simp: kv)
  have "cache_store c k v = c @ [(k, v)]"
    using Cons.prems d new by (simp add: cache_store_distinct dict_set_new)
  moreover have "store_all c (kv # kvs) = store_all (cache_store c k v) kvs"
    by (simp add: store_all_def kv)
  ultimately show ?case using Cons.IH[of "c @ [(k, v)]"] Cons.prems by (simp add: kv)
qed

lemma store_all_51:
  assumes "distinct (map fst kvs)" "length kvs = 51"
  shows "store_all [] kvs = drop 10 kvs"
proof -
  obtain xs x where kvs: "kvs = xs @ [x]"
    using assms(2) by (metis length_0_conv rev_exhaust zero_neq_numeral)
  with assms have dx: "distinct (map fst xs)" and lx: "length xs = 50"
    and new: "fst x \<notin> fst ` set xs"
    by auto
  have "store_all [] xs = xs"
    using store_all_small[of "[]" xs] dx lx by simp
  then have "store_all [] kvs = cache_store xs (fst x) (snd x)"
    by (simp add: kvs store_all_append) (simp add: store_all_def)
  also have "\<dots> = drop 10 (xs @ [x])"
    using dx lx new by (simp add: cache_store_distinct dict_set_new)
  finally show ?thesis by (simp add: kvs)
qed

lemma map_of_drop_old:
  assumes "distinct (map fst kvs)" "key \<in> set (take n (map fst kvs))"
  shows "map_of (drop n kvs) key = None"
proof -
  have "set (take n (map fst kvs)) \<inter> set (drop n (map fst kvs)) = {}"
    using assms(1) by (rule set_take_disj_set_drop_if_distinct) simp
  with assms(2) have "key \<notin> set (map fst (drop n kvs))"
    by (auto simp: drop_map)
  then show ?thesis by (simp add: map_of_eq_None_iff)
qed

lemma map_of_drop_kept:
  assumes "distinct (map fst kvs)" "kv \<in> set (drop n kvs)"
  shows "map_of (drop n kvs) (fst kv) = Some (snd kv)"
proof -
  have "distinct (map fst (drop n kvs))"
    using assms(1) by (simp add: drop_map[symmetric])
  then show ?thesis using assms(2) by simp
qed

lemma filter_in_drop:
  "distinct ks \<Longrightarrow> filter (\<lambda>k. k \<in> set (drop n ks)) ks = drop n ks"
proof (induction ks arbitrary: n)
  case Nil
  then show ?case by simp
next
  case (Cons x xs)
  show ?case
  proof (cases n)
    case 0
    then show ?thesis by simp
  next
    case (Suc m)
    have "x \<notin> set (drop m xs)"
      using Cons.prems by (auto dest: in_set_dropD)
    then show ?thesis using Cons Suc by simp
  qed
qed

lemma retrievable_after_drop:
  assumes "distinct (map fst kvs)"
  shows "filter (\<lambda>key. map_of (drop n kvs) key \<noteq> None) (map fst kvs) = drop n (map fst kvs)"
proof -
  have "(\<lambda>key. map_of (drop n kvs) key \<noteq> None) = (\<lambda>key. key \<in> set (drop n (map fst kvs)))"
    by (simp add: map_of_eq_None_iff drop_map fun_eq_iff)
  then show ?thesis using filter_in_drop[OF assms, of n] by (simp only:)
qed

lemma numbered_results_distinct: "distinct (map fst numbered_results)"
  unfolding numbered_results_def by code_simp

lemma numbered_results_length: "length numbered_results = 51"
  by (simp add: numbered_results_def)

text \<open>
  C4: the result cache evicts in fixed batches. Whenever, after an assignment, the cache
  holds more than 50 entries, the ten entries that are oldest by insertion are removed
  together (a new key is inserted at the end, a present key keeps its place); otherwise
  nothing is removed. Storing 51 distinct keys into the empty cache leaves the last 41:
  the first ten are gone, and 41 of the original entries can still be retrieved.
\<close>

theorem cache_evicts_ten_oldest:
  "(distinct (map fst cache) \<longrightarrow>
      (length (dict_set cache k v) > 50 \<longrightarrow>
         cache_store cache k v = drop 10 (dict_set cache k v)) \<and>
      (length (dict_set cache k v) \<le> 50 \<longrightarrow> cache_store cache k v = dict_set cache k v) \<and>
      (k \<notin> fst ` set cache \<longrightarrow> dict_set cache k v = cache @ [(k, v)]))
   \<and> (distinct (map fst kvs) \<and> length kvs = 51 \<longrightarrow>
        store_all [] kvs = drop 10 kvs \<and>
        length (filter (\<lambda>key. map_of (store_all [] kvs) key \<noteq> None) (map fst kvs)) = 41 \<and>
        (\<forall>key \<in> set (take 10 (map fst kvs)). map_of (store_all [] kvs) key = None) \<and>
        (\<forall>kv \<in> set (drop 10 kvs). map_of (store_all [] kvs) (fst kv) = Some (snd kv)))"
proof (intro conjI impI)
  assume d: "distinct (map fst cache)"
  show "length (dict_set cache k v) > 50 \<Longrightarrow>
        cache_store cache k v = drop 10 (dict_set cache k v)"
    using d by (simp add: cache_store_distinct)
  show "length (dict_set cache k v) \<le> 50 \<Longrightarrow> cache_store cache k v = dict_set cache k v"
    using d by (simp add: cache_store_distinct)
next
  show "k \<notin> fst ` set cache \<Longrightarrow> dict_set cache k v = cache @ [(k, v)]"
    by (rule dict_set_new)
next
  assume h: "distinct (map fst kvs) \<and> length kvs = 51"
  then have eq: "store_all [] kvs = drop 10 kvs"
    by (simp add: store_all_51)
  show "store_all [] kvs = drop 10 kvs" by (rule eq)
  have "length (filter (\<lambda>key. map_of (drop 10 kvs) key \<noteq> None) (map fst kvs)) =
        length (drop 10 (map fst kvs))"
    using h by (simp only: retrievable_after_drop)
  then show "length (filter (\<lambda>key. map_of (store_all [] kvs) key \<noteq> None) (map fst kvs)) = 41"
    using h unfolding eq by simp
  show "\<forall>key \<in> set (take 10 (map fst kvs)). map_of (store_all [] kvs) key = None"
    using h by (auto simp: eq intro: map_of_drop_old)
  show "\<forall>kv \<in> set (drop 10 kvs). map_of (store_all [] kvs) (fst kv) = Some (snd kv)"
    using h by (auto simp: eq intro: map_of_drop_kept)
qed

text \<open>
  The theorem at 51 results stored under the keys 0 to 50: key 0 is gone, key 50 is there,
  41 keys remain.
\<close>

theorem cache_evicts_ten_oldest_witness:
  "distinct (map fst numbered_results) \<and> length numbered_results = 51 \<and>
   store_all [] numbered_results = drop 10 numbered_results \<and>
   length (filter (\<lambda>key. map_of (store_all [] numbered_results) key \<noteq> None)
             (map fst numbered_results)) = 41"
  using cache_evicts_ten_oldest [of "[]" "''0''" "ToolResult ''get_me'' [] PNone" numbered_results]
    numbered_results_distinct numbered_results_length
  by blast

section \<open>Cache keys do not depend on the order of the arguments\<close>









section \<open>The loop body of \<open>execute_tools\<close>\<close>

lemma execute_tool_cached:
  assumes "cached_result md5 a tc = Some r"
  shows "execute_tool md5 T a tc = (r, a)"
  using assms
  by (auto simp: execute_tool_def cached_result_def Let_def split: if_splits)




lemma execute_tool_not_available:
  assumes "result_cache a = []" "tools (mcp_client a) = []"
  shows "execute_tool md5 T a tc = (not_available tc, a)"
  using assms
  by (auto simp: execute_tool_def not_available_def Let_def)

lemma execute_tools_not_available:
  assumes "result_cache a = []" "tools (mcp_client a) = []"
  shows "execute_tools md5 T a tcs = (map not_available tcs, a)"
  using assms
  by (induction tcs) (simp_all add: execute_tool_not_available)

text \<open>The loop body when the cache has no entry for the call.\<close>

lemma execute_tool_uncached:
  assumes "cached_result md5 a tc = None"
  shows "execute_tool md5 T a tc =
     (case map_of (tools (mcp_client a)) (call_name tc) of
        None \<Rightarrow> (ToolFailure (call_name tc) None ToolNotAvailable, a)
      | Some info \<Rightarrow>
          if filter (\<lambda>p. p \<notin> fst ` set (call_arguments tc)) (tool_required info) \<noteq> []
          then (ToolFailure (call_name tc) None
                  (MissingRequiredParameters
                     (filter (\<lambda>p. p \<notin> fst ` set (call_arguments tc)) (tool_required info))), a)
          else
            (case call_tool T (mcp_client a) (call_name tc) (call_arguments tc) of
               (Inr res, c') \<Rightarrow>
                 (ToolResult (call_name tc) (call_arguments tc) res, remember md5 a tc c' res)
             | (Inl err, c') \<Rightarrow>
                 (ToolFailure (call_name tc) (Some (call_arguments tc)) (ToolCallRaised err),
                  a\<lparr>mcp_client := c'\<rparr>)))"
proof (cases "call_name tc \<in> set cacheable_tools")
  case True
  with assms have "map_of (result_cache a)
      (get_cache_key md5 (call_name tc) (call_arguments tc)) = None"
    by (simp add: cached_result_def)
  with True show ?thesis
    by (simp add: execute_tool_def Let_def remember_def
        split: option.split prod.split sum.split)
next
  case False
  then show ?thesis
    by (simp add: execute_tool_def Let_def remember_def
        split: option.split prod.split sum.split)
qed

lemma remember_cache_invariant:
  assumes "distinct (map fst (result_cache a))" "length (result_cache a) \<le> 50"
  shows "distinct (map fst (result_cache (remember md5 a tc c' res))) \<and>
         length (result_cache (remember md5 a tc c' res)) \<le> 50"
  using assms
  by (simp add: remember_def cache_store_keeps_distinct cache_store_bounded)

text \<open>The cache stays a dictionary of at most fifty entries along every run.\<close>

lemma execute_tool_cache_invariant:
  assumes "distinct (map fst (result_cache a))" "length (result_cache a) \<le> 50"
  shows "distinct (map fst (result_cache (snd (execute_tool md5 T a tc)))) \<and>
         length (result_cache (snd (execute_tool md5 T a tc))) \<le> 50"
proof (cases "cached_result md5 a tc")
  case (Some r)
  then show ?thesis using assms by (simp add: execute_tool_cached)
next
  case None
  show ?thesis
    using assms remember_cache_invariant[OF assms]
    by (simp add: execute_tool_uncached[OF None] split: option.split prod.split sum.split)
qed

lemma execute_tool_unavailable:
  assumes "cached_result md5 a tc = None"
    and "map_of (tools (mcp_client a)) (call_name tc) = None"
  shows "execute_tool md5 T a tc = (ToolFailure (call_name tc) None ToolNotAvailable, a)"
  using assms(2) by (simp add: execute_tool_uncached[OF assms(1)])

lemma execute_tool_called:
  assumes "cached_result md5 a tc = None"
    and "map_of (tools (mcp_client a)) (call_name tc) = Some info"
    and "filter (\<lambda>p. p \<notin> fst ` set (call_arguments tc)) (tool_required info) = []"
    and "call_tool T (mcp_client a) (call_name tc) (call_arguments tc) = (Inr res, c')"
  shows "execute_tool md5 T a tc =
           (ToolResult (call_name tc) (call_arguments tc) res, remember md5 a tc c' res)"
  using assms(2-4) by (simp add: execute_tool_uncached[OF assms(1)])

lemma execute_tool_raised:
  assumes "cached_result md5 a tc = None"
    and "map_of (tools (mcp_client a)) (call_name tc) = Some info"
    and "filter (\<lambda>p. p \<notin> fst ` set (call_arguments tc)) (tool_required info) = []"
    and "call_tool T (mcp_client a) (call_name tc) (call_arguments tc) = (Inl err, c')"
  shows "execute_tool md5 T a tc =
           (ToolFailure (call_name tc) (Some (call_arguments tc)) (ToolCallRaised err),
            a\<lparr>mcp_client := c'\<rparr>)"
  using assms(2-4) by (simp add: execute_tool_uncached[OF assms(1)])

lemma remember_lookup:
  assumes "call_name tc \<in> set cacheable_tools"
    and "get_cache_key md5 (call_name tc) (call_arguments tc) \<noteq> []"
    and "distinct (map fst (result_cache a))" "length (result_cache a) \<le> 50"
  shows "map_of (result_cache (remember md5 a tc c' res))
           (get_cache_key md5 (call_name tc) (call_arguments tc)) =
         Some (ToolResult (call_name tc) (call_arguments tc) res)"
  using assms by (simp add: remember_def cache_store_lookup)

section \<open>Parameter validation comes before the request\<close>

lemma fresh_client:
  "mcp_client fresh_agent =
     \<lparr>github_token = Some ''ghp_token'', toolsets = [''all''], readonly = True,
      base_url = ''https://api.githubcopilot.com/mcp/readonly/'',
      headers = [(''Authorization'', ''Bearer ghp_token''),
                 (''Content-Type'', ''application/json''),
                 (''User-Agent'', ''GitHub-MCP-Client/1.0''),
                 (''X-MCP-Readonly'', ''true'')],
      session = False, tools = [], sent = []\<rparr>"
  by (simp add: fresh_agent_def GitHubAgent_init_def GitHubMCPClient_init_def rstrip_slash_def
      fstr_opt_def Let_def)

lemmas handshake_simps =
  agent_initialize_def initialize_def tools_list_step_def post_def listed_tools_def
  read_tool_def upgrading_transport_def reply_def tool_listing_def Let_def header_get_def

lemmas call_simps =
  execute_tool_def Let_def search_call_def cacheable_tools_def call_tool_def post_def
  upgrading_transport_def reply_def read_call_reply_def py_contains_def

lemma listed_tools_q:
  "tools (mcp_client listed_agent) =
     [(''search_code'', \<lparr>tool_description = PStr ''Search for code'',
                          tool_parameters = PDict [], tool_required = [''q'']\<rparr>)]"
  by (simp add: listed_agent_def fresh_client handshake_simps)

lemma listed_session: "session (mcp_client listed_agent)" "result_cache listed_agent = []"
  by (simp_all add: listed_agent_def fresh_client handshake_simps fresh_agent_def
      GitHubAgent_init_def)



lemma first_search:
  "fst (execute_tool tagged upgrading_transport listed_agent search_call) =
     ToolResult ''search_code'' [(''q'', PStr ''TODO'')] (PStr ''3 matches'')"
  by (simp add: call_simps listed_tools_q listed_session)











section \<open>A refused handshake\<close>

lemma initialize_refused:
  assumes "handshake_refused T c"
  shows "initialize T c = (0, c\<lparr>session := True, sent := sent c @ [initialize_request c]\<rparr>)"
  using assms
  by (auto simp: handshake_refused_def initialize_def post_def Let_def initialize_request_def
      split: post_outcome.splits)

lemma refusing_refuses: "handshake_refused refusing_transport (mcp_client fresh_agent)"
  by (simp add: handshake_refused_def refusing_transport_def reply_def initialize_request_def)

lemma refused_client:
  "mcp_client refused_agent =
     (mcp_client fresh_agent)\<lparr>session := True,
        sent := [initialize_request (mcp_client fresh_agent)]\<rparr>"
  using initialize_refused[OF refusing_refuses]
  by (simp add: refused_agent_def agent_initialize_def fresh_client)

text \<open>
  The true half of C2: a refused handshake returns 0 after its one request and leaves the
  tool table of a new agent empty; the agent's \<open>execute_tools\<close> then answers every call with
  the not-available error and sends nothing.
\<close>

lemma refused_handshake_leaves_no_tools:
  assumes "handshake_refused T (mcp_client (GitHubAgent_init token ts ro aid))"
  shows "fst (agent_initialize T (GitHubAgent_init token ts ro aid)) = 0 \<and>
         tools (mcp_client (snd (agent_initialize T (GitHubAgent_init token ts ro aid)))) = [] \<and>
         sent (mcp_client (snd (agent_initialize T (GitHubAgent_init token ts ro aid)))) =
           [initialize_request (mcp_client (GitHubAgent_init token ts ro aid))] \<and>
         (\<forall>md5 T' tcs.
            execute_tools md5 T' (snd (agent_initialize T (GitHubAgent_init token ts ro aid))) tcs =
              (map not_available tcs, snd (agent_initialize T (GitHubAgent_init token ts ro aid))))"
proof -
  let ?a = "GitHubAgent_init token ts ro aid"
  have fresh: "tools (mcp_client ?a) = []" "sent (mcp_client ?a) = []" "result_cache ?a = []"
    by (simp_all add: GitHubAgent_init_def GitHubMCPClient_init_def Let_def)
  have init: "agent_initialize T ?a =
        (0, ?a\<lparr>mcp_client := (mcp_client ?a)\<lparr>session := True,
                  sent := [initialize_request (mcp_client ?a)]\<rparr>\<rparr>)"
    using initialize_refused[OF assms] fresh by (simp add: agent_initialize_def)
  have "execute_tools md5 T' (snd (agent_initialize T ?a)) tcs =
          (map not_available tcs, snd (agent_initialize T ?a))" for md5 T' tcs
    by (rule execute_tools_not_available) (simp_all add: init fresh)
  then show ?thesis
    using fresh by (simp add: init)
qed

text \<open>
  C2: when the \<open>initialize\<close> call reports a status other than 200, the session ends with no
  tools and every later \<open>call_tool\<close>, for any tool name, fails with the session-not-ready
  error without reaching the network. The code breaks the second half. The guard of
  \<open>call_tool\<close> is \<open>if not self.session\<close>, raising "MCP session not initialized", but
  \<open>initialize\<close> assigns \<open>self.session\<close> before the handshake and leaves it set when the
  handshake is refused. After a handshake refused with 503 the tool table is empty, yet
  \<open>call_tool('get_me', {})\<close> passes the guard, posts its request (the log grows from one
  request to two) and returns the provider's result. On the client before \<open>initialize\<close>
  the same call raises and sends nothing.
\<close>

theorem call_tool_after_refused_handshake:
  "fst (agent_initialize refusing_transport fresh_agent) = 0 \<and>
   tools (mcp_client refused_agent) = [] \<and>
   session (mcp_client refused_agent) \<and>
   fst (call_tool refusing_transport (mcp_client refused_agent) ''get_me'' []) = Inr octocat \<and>
   length (sent (mcp_client refused_agent)) = 1 \<and>
   length (sent (snd (call_tool refusing_transport (mcp_client refused_agent) ''get_me'' []))) = 2 \<and>
   call_tool refusing_transport (mcp_client fresh_agent) ''get_me'' [] =
     (Inl SessionNotInitialized, mcp_client fresh_agent)"
proof -
  have "fst (agent_initialize refusing_transport fresh_agent) = 0"
    using initialize_refused[OF refusing_refuses] by (simp add: agent_initialize_def)
  then show ?thesis
    by (simp add: refused_client fresh_client call_tool_def post_def refusing_transport_def
        reply_def read_call_reply_def py_contains_def)
qed

section \<open>The JSON decoder reads what the encoder writes\<close>

subsection \<open>Numbers\<close>

















subsection \<open>Strings\<close>









lemma json_string_head: "json_string s = CHR 0x22 # tl (json_string s)"
  by (simp add: json_string_def)

subsection \<open>Values\<close>






lemma strip_prefix_append: "strip_prefix p (p @ rest) = Some rest"
  by (induction p) simp_all



lemma join_Cons2: "join sep (x # y # ys) = x @ sep @ join sep (y # ys)"
  by simp












section \<open>The message envelope through JSON\<close>

lemma AgentMessage_populated:
  "msg_timestamp (AgentMessage e sender recipient mtype cont ts mid) \<noteq> PNone \<and>
   msg_message_id (AgentMessage e sender recipient mtype cont ts mid) \<noteq> PNone"
  by (simp add: AgentMessage_def)





end
